theory Spec2Isabelle
  imports Main "HOL-Library.Word" "HOL-Library.Signed_Division"
begin

section \<open>Go values\<close>

text \<open>
  A Go byte slice is a list of 8-bit characters; the nil slice and the empty slice are both
  the empty list, which is how \<^verbatim>\<open>bytes.Compare\<close>, \<^verbatim>\<open>len\<close> and the key-value store treat
  them. Go's \<^verbatim>\<open>int\<close> is the 64-bit machine integer: \<open>+\<close> and \<open>-\<close> wrap around, the order is
  the signed one (\<open><s\<close>, \<open>\<le>s\<close>) and division truncates towards zero.
\<close>

type_synonym bytes = string
type_synonym go_int = "64 word"

definition go_quo :: "go_int \<Rightarrow> go_int \<Rightarrow> go_int" where
  "go_quo a b = word_of_int (sint a sdiv sint b)"

text \<open>
  Errors are values. \<open>Wrap\<close> is \<^verbatim>\<open>errors.Wrap\<close> and \<^verbatim>\<open>errors.Wrapf\<close> of
  \<^verbatim>\<open>github.com/pkg/errors\<close> (the message without its formatted arguments), \<open>New\<close> is
  \<^verbatim>\<open>errors.New\<close> and \<^verbatim>\<open>errors.Errorf\<close>. \<open>ErrKeyRequired\<close> and \<open>ErrKeyTooLarge\<close> are the
  errors of the store's \<^verbatim>\<open>Put\<close>, \<open>SyntaxError\<close> is what \<^verbatim>\<open>json.Unmarshal\<close> returns on a value
  it cannot decode. \<open>NilPointerDereference\<close> is not a returned error but the run-time panic
  of \<^verbatim>\<open>*p\<close> at a nil \<^verbatim>\<open>p\<close>; it is never wrapped.
\<close>

datatype error =
    ErrInsufficientVotes
  | ErrCantForge
  | ErrInvalidBlock
  | ErrKeyRequired
  | ErrKeyTooLarge
  | SyntaxError
  | NilPointerDereference
  | New string
  | Wrap string error

text \<open>\<^verbatim>\<open>errors.Is(err, target)\<close>: \<open>err\<close> or an error it wraps is \<open>target\<close>.\<close>

fun errors_Is :: "error \<Rightarrow> error \<Rightarrow> bool" where
  "errors_Is (Wrap msg cause) target = (Wrap msg cause = target \<or> errors_Is cause target)"
| "errors_Is err target = (err = target)"

section \<open>Package transaction: outputs, UTXOs, inputs, transactions\<close>

record Output =
  Value :: go_int
  PublicKeyHash :: bytes

type_synonym Outputs = "Output list"

text \<open>\<^verbatim>\<open>Outputs.Find\<close>: the first output that meets the criteria, or the zero output and false.\<close>

fun Outputs_Find :: "(Output \<Rightarrow> bool) \<Rightarrow> Outputs \<Rightarrow> Output \<times> bool" where
  "Outputs_Find criteria [] = (\<lparr>Output.Value = 0, Output.PublicKeyHash = []\<rparr>, False)"
| "Outputs_Find criteria (out # outs) =
     (if criteria out then (out, True) else Outputs_Find criteria outs)"

fun Outputs_Sum_from :: "go_int \<Rightarrow> Outputs \<Rightarrow> go_int" where
  "Outputs_Sum_from running [] = running"
| "Outputs_Sum_from running (out # outs) = Outputs_Sum_from (running + Output.Value out) outs"

definition Outputs_Sum :: "Outputs \<Rightarrow> go_int" where
  "Outputs_Sum outs = Outputs_Sum_from 0 outs"

record UTXO =
  TransactionID :: bytes
  PublicKeyHash :: bytes
  Value :: go_int
  Vout :: go_int

type_synonym UTXOs = "UTXO list"

text \<open>\<^verbatim>\<open>UTXOs.Filter\<close> appends the UTXOs that meet the criteria to an empty result, in order.\<close>

fun UTXOs_Filter_into :: "UTXOs \<Rightarrow> (UTXO \<Rightarrow> bool) \<Rightarrow> UTXOs \<Rightarrow> UTXOs" where
  "UTXOs_Filter_into result criteria [] = result"
| "UTXOs_Filter_into result criteria (utxo # utxos) =
     UTXOs_Filter_into (if criteria utxo then result @ [utxo] else result) criteria utxos"

definition UTXOs_Filter :: "(UTXO \<Rightarrow> bool) \<Rightarrow> UTXOs \<Rightarrow> UTXOs" where
  "UTXOs_Filter criteria utxos = UTXOs_Filter_into [] criteria utxos"

fun UTXOs_Sum_from :: "go_int \<Rightarrow> UTXOs \<Rightarrow> go_int" where
  "UTXOs_Sum_from running [] = running"
| "UTXOs_Sum_from running (u # utxos) = UTXOs_Sum_from (running + UTXO.Value u) utxos"

definition UTXOs_Sum :: "UTXOs \<Rightarrow> go_int" where
  "UTXOs_Sum utxos = UTXOs_Sum_from 0 utxos"

text \<open>
  The declaration of \<^verbatim>\<open>Input\<close> is not among the sources; its fields are the ones the
  sources read and write.
\<close>

record Input =
  TransactionID :: bytes
  Vout :: go_int
  PublicKeyHash :: bytes
  Signature :: bytes
  Verifier :: bytes

type_synonym Inputs = "Input list"

record Transaction =
  ID :: bytes
  Inputs :: Inputs
  Outputs :: Outputs
  Timestamp :: go_int

type_synonym Transactions = "Transaction list"

subsection \<open>Transaction identity\<close>

text \<open>
  \<^verbatim>\<open>newID\<close> hashes a \<^verbatim>\<open>hashable\<close> whose \<^verbatim>\<open>Timestamp\<close> it never sets, so the field is zero.
  \<^verbatim>\<open>json.Marshal\<close>, \<^verbatim>\<open>sha256.Sum256\<close>, \<^verbatim>\<open>time.Now().Unix()\<close> and
  \<^verbatim>\<open>base64.StdEncoding.EncodeToString\<close> belong to the Go library and are parameters here.
  A Go call that returns a value and an error is a sum: the callers below look at the
  value only when the error is nil.
\<close>

record hashable =
  Inputs :: Inputs
  Outputs :: Outputs
  Timestamp :: go_int

record stdlib =
  json_Marshal :: "hashable \<Rightarrow> error + bytes"
  sha256_Sum256 :: "bytes \<Rightarrow> bytes"
  time_Now_Unix :: go_int
  base64_EncodeToString :: "bytes \<Rightarrow> string"

definition hash :: "stdlib \<Rightarrow> hashable \<Rightarrow> error + bytes" where
  "hash lib data =
     (case json_Marshal lib data of
        Inl err \<Rightarrow> Inl (Wrap ''Failed to serialize data'' err)
      | Inr raw \<Rightarrow> Inr (sha256_Sum256 lib raw))"

definition newID :: "stdlib \<Rightarrow> Inputs \<Rightarrow> Outputs \<Rightarrow> error + bytes" where
  "newID lib inputs outputs =
     hash lib \<lparr>hashable.Inputs = inputs, hashable.Outputs = outputs, hashable.Timestamp = 0\<rparr>"

definition NewTransaction :: "stdlib \<Rightarrow> Inputs \<Rightarrow> Outputs \<Rightarrow> error + Transaction" where
  "NewTransaction lib inputs outputs =
     (case newID lib inputs outputs of
        Inl err \<Rightarrow> Inl (Wrap ''Failed to create id'' err)
      | Inr id' \<Rightarrow>
          Inr \<lparr>Transaction.ID = id', Transaction.Inputs = inputs, Transaction.Outputs = outputs,
               Transaction.Timestamp = time_Now_Unix lib\<rparr>)"

text \<open>\<^verbatim>\<open>Transaction.UTXOs\<close>: one UTXO per output, numbered by the output's index.\<close>

fun Transaction_UTXOs_from :: "bytes \<Rightarrow> nat \<Rightarrow> Outputs \<Rightarrow> UTXOs" where
  "Transaction_UTXOs_from id' i [] = []"
| "Transaction_UTXOs_from id' i (out # outs) =
     \<lparr>UTXO.TransactionID = id', UTXO.PublicKeyHash = Output.PublicKeyHash out,
      UTXO.Value = Output.Value out, UTXO.Vout = of_nat i\<rparr>
     # Transaction_UTXOs_from id' (Suc i) outs"

definition Transaction_UTXOs :: "Transaction \<Rightarrow> UTXOs" where
  "Transaction_UTXOs t = Transaction_UTXOs_from (Transaction.ID t) 0 (Transaction.Outputs t)"

subsection \<open>Stake transactions\<close>

text \<open>
  The struct \<^verbatim>\<open>signable\<close> and the package \<^verbatim>\<open>wallet\<close> are not among the sources. \<^verbatim>\<open>signable\<close>
  has the three fields the sources set. Of a wallet the sources use the field
  \<^verbatim>\<open>PublicKey\<close> and the method \<^verbatim>\<open>PublicKeyHash()\<close>, of a signer the method \<^verbatim>\<open>SignRaw\<close>: both
  methods are parameters (\<open>publicKeyHash\<close>, \<open>SignRaw\<close>), and so is the closure \<open>getUTXOs\<close>.
\<close>

record signable =
  Recipient :: bytes
  Sender :: bytes
  Value :: go_int

record Wallet =
  PublicKey :: bytes
  PrivateKey :: bytes

definition VoteValue :: go_int where
  "VoteValue = 10"

fun NewStakeTransaction_loop ::
  "(signable \<Rightarrow> error + bytes) \<Rightarrow> bytes \<Rightarrow> bytes \<Rightarrow> bytes \<Rightarrow> go_int
     \<Rightarrow> go_int \<Rightarrow> Inputs \<Rightarrow> UTXOs \<Rightarrow> error + go_int \<times> Inputs" where
  "NewStakeTransaction_loop SignRaw creatorHash creatorKey stakeholder target summed inputs [] =
     Inr (summed, inputs)"
| "NewStakeTransaction_loop SignRaw creatorHash creatorKey stakeholder target summed inputs
     (utxo # utxos) =
     (let summed' = summed + UTXO.Value utxo;
          signable = \<lparr>Recipient = stakeholder, Sender = creatorHash,
                      signable.Value = UTXO.Value utxo\<rparr>
      in case SignRaw signable of
           Inl err \<Rightarrow> Inl (Wrap ''Failed to sign'' err)
         | Inr signature \<Rightarrow>
             (let inputs' = inputs @
                    [\<lparr>Input.TransactionID = UTXO.TransactionID utxo,
                      Input.Vout = UTXO.Vout utxo, Input.PublicKeyHash = creatorHash,
                      Signature = signature, Verifier = creatorKey\<rparr>]
              in if target \<le>s summed' then Inr (summed', inputs')
                 else NewStakeTransaction_loop SignRaw creatorHash creatorKey stakeholder
                        target summed' inputs' utxos))"

definition NewStakeTransaction ::
  "stdlib \<Rightarrow> (bytes \<Rightarrow> error + UTXOs) \<Rightarrow> (signable \<Rightarrow> error + bytes) \<Rightarrow> (Wallet \<Rightarrow> bytes)
     \<Rightarrow> Wallet \<Rightarrow> bytes \<Rightarrow> error + Transaction" where
  "NewStakeTransaction lib getUTXOs SignRaw publicKeyHash stakeCreator stakeholder =
     (case getUTXOs (publicKeyHash stakeCreator) of
        Inl err \<Rightarrow> Inl (Wrap ''Failed to retrieve utxos for stake tx'' err)
      | Inr utxos \<Rightarrow>
          (let target = go_quo (UTXOs_Sum utxos) 2
           in if target <s go_quo VoteValue 2 then Inl ErrCantForge
              else
                (case NewStakeTransaction_loop SignRaw (publicKeyHash stakeCreator)
                        (PublicKey stakeCreator) stakeholder target 0 [] utxos of
                   Inl err \<Rightarrow> Inl err
                 | Inr (summed, inputs) \<Rightarrow>
                     (let outputs =
                            [\<lparr>Output.Value = target, Output.PublicKeyHash = stakeholder\<rparr>]
                            @ (if target <s summed
                               then [\<lparr>Output.Value = summed - target,
                                      Output.PublicKeyHash = publicKeyHash stakeCreator\<rparr>]
                               else [])
                      in NewTransaction lib inputs outputs))))"

subsection \<open>Verification\<close>

text \<open>
  \<^verbatim>\<open>VerifyTransactions\<close> takes the UTXO lookup and the signature verifier as arguments. The
  loop returns false at the first input that fails.
\<close>

fun VerifyTransactions_loop ::
  "stdlib \<Rightarrow> (bytes \<Rightarrow> go_int \<Rightarrow> error + UTXO option)
     \<Rightarrow> (signable \<Rightarrow> string \<Rightarrow> string \<Rightarrow> error + bool) \<Rightarrow> Outputs \<Rightarrow> Inputs \<Rightarrow> bool" where
  "VerifyTransactions_loop lib getTransactionUTXO verifier outputs [] = True"
| "VerifyTransactions_loop lib getTransactionUTXO verifier outputs (input # inputs) =
     (case Outputs_Find
             (\<lambda>out. Output.PublicKeyHash out \<noteq> Input.PublicKeyHash input) outputs of
        (receiver, found) \<Rightarrow>
          if \<not> found then False
          else
            (case getTransactionUTXO (Input.TransactionID input) (Input.Vout input) of
               Inl err \<Rightarrow> False
             | Inr None \<Rightarrow> False
             | Inr (Some utxo) \<Rightarrow>
                 (let signable = \<lparr>Recipient = Output.PublicKeyHash receiver,
                                  Sender = Input.PublicKeyHash input,
                                  signable.Value = UTXO.Value utxo\<rparr>;
                      signature = base64_EncodeToString lib (Input.Signature input);
                      pKey = base64_EncodeToString lib (Verifier input)
                  in case verifier signable signature pKey of
                       Inl err \<Rightarrow> False
                     | Inr ok \<Rightarrow>
                         if \<not> ok then False
                         else VerifyTransactions_loop lib getTransactionUTXO verifier
                                outputs inputs)))"

definition VerifyTransactions ::
  "stdlib \<Rightarrow> (bytes \<Rightarrow> go_int \<Rightarrow> error + UTXO option)
     \<Rightarrow> (signable \<Rightarrow> string \<Rightarrow> string \<Rightarrow> error + bool) \<Rightarrow> Transaction \<Rightarrow> bool" where
  "VerifyTransactions lib getTransactionUTXO verifier transaction =
     VerifyTransactions_loop lib getTransactionUTXO verifier
       (Transaction.Outputs transaction) (Transaction.Inputs transaction)"

section \<open>Package blockchain: blocks\<close>

text \<open>
  Modelled from the spec: the declaration of \<^verbatim>\<open>blockchain.Block\<close> is not among the sources.
  The spec gives a block a header \<open>{Hash, PrevHash, Height, Timestamp,
  ForgerPublicKeyHash}\<close> and a body \<open>{Transactions}\<close>; the sources read
  \<^verbatim>\<open>block.Header.Hash\<close> and \<^verbatim>\<open>block.Body.Transactions\<close>.
\<close>

record Header =
  Hash :: bytes
  PrevHash :: bytes
  Height :: go_int
  Timestamp :: go_int
  ForgerPublicKeyHash :: bytes

record Body =
  Transactions :: Transactions

record Block =
  Header :: Header
  Body :: Body

section \<open>Package repository: the store\<close>

text \<open>
  The store is the bolt database: named buckets, each a map from keys to values, a bucket
  being absent until it is created. A value is kept as what \<^verbatim>\<open>json.Unmarshal\<close> makes of its
  bytes: \<open>Encoded v\<close> for bytes that decode to \<open>v\<close> (the repository's \<^verbatim>\<open>utxo\<close> records with
  their base64 fields decode to the UTXOs they were made from), \<open>Undecodable\<close> for bytes
  that do not decode.
\<close>

datatype 'a raw = Undecodable | Encoded 'a

type_synonym 'v bucket = "bytes \<Rightarrow> 'v option"

definition MaxKeySize :: nat where
  "MaxKeySize = 32768"

text \<open>
  \<^verbatim>\<open>Bucket.Put\<close> in a writable transaction refuses an empty key and a key longer than
  \<open>MaxKeySize\<close>; otherwise it sets the key. (Its limit on the size of a value is left out:
  the values here are not bytes.)
\<close>

definition Bucket_Put :: "'v bucket \<Rightarrow> bytes \<Rightarrow> 'v \<Rightarrow> error + 'v bucket" where
  "Bucket_Put b key v =
     (if length key = 0 then Inl ErrKeyRequired
      else if MaxKeySize < length key then Inl ErrKeyTooLarge
      else Inr (b(key \<mapsto> v)))"

definition json_Unmarshal :: "'a raw \<Rightarrow> error + 'a" where
  "json_Unmarshal r = (case r of Undecodable \<Rightarrow> Inl SyntaxError | Encoded v \<Rightarrow> Inr v)"

text \<open>\<^verbatim>\<open>Bucket.Delete\<close> in a writable transaction removes the key; a missing key is no error.\<close>

definition Bucket_Delete :: "'v bucket \<Rightarrow> bytes \<Rightarrow> error + 'v bucket" where
  "Bucket_Delete b key = Inr (b(key := None))"

text \<open>
  The bucket \<^verbatim>\<open>blocks\<close> holds the encoded blocks under their hashes and, under the key
  \<^verbatim>\<open>l\<close>, the bytes of the tip's hash. The bucket \<^verbatim>\<open>ether\<close> holds the saved transactions,
  the buckets \<^verbatim>\<open>utxos-by-pkey\<close> and \<^verbatim>\<open>utxos-by-tx\<close> the lists of UTXOs.
\<close>

datatype blocks_value = Block_json Block | Tip_bytes bytes

record Store =
  blocks :: "blocks_value bucket option"
  ether :: "Transaction raw bucket option"
  utxos_by_pkey :: "UTXOs raw bucket option"
  utxos_by_tx :: "UTXOs raw bucket option"

text \<open>\<^verbatim>\<open>tx.Bucket(name)\<close>, created empty when it is nil.\<close>

definition bucket_or_created :: "'v bucket option \<Rightarrow> 'v bucket" where
  "bucket_or_created ob = (case ob of None \<Rightarrow> Map.empty | Some b \<Rightarrow> b)"

subsection \<open>utxo.go\<close>

text \<open>
  The loop of \<^verbatim>\<open>saveUTXOsByPublicKey\<close> and of \<^verbatim>\<open>saveUTXOsByTransactionID\<close>: the two differ in
  the key (\<open>key_of\<close>) and in the message of the last error only. \<^verbatim>\<open>json.Marshal\<close> of the
  repository's records, which hold strings and integers, does not fail, and neither does
  the creation of a bucket that is missing: these error branches are left out, here and
  below.
\<close>

fun saveUTXOs_loop ::
  "(UTXO \<Rightarrow> bytes) \<Rightarrow> string \<Rightarrow> UTXOs raw bucket \<Rightarrow> UTXOs \<Rightarrow> error + UTXOs raw bucket" where
  "saveUTXOs_loop key_of msg b [] = Inr b"
| "saveUTXOs_loop key_of msg b (u # utxos) =
     (case (case b (key_of u) of
              None \<Rightarrow> Inr []
            | Some raw \<Rightarrow> json_Unmarshal raw) of
        Inl err \<Rightarrow> Inl (Wrap ''Failed to unmarshal into utxo array'' err)
      | Inr saved \<Rightarrow>
          (case Bucket_Put b (key_of u) (Encoded (saved @ [u])) of
             Inl err \<Rightarrow> Inl (Wrap msg err)
           | Inr b' \<Rightarrow> saveUTXOs_loop key_of msg b' utxos))"

definition saveUTXOsByPublicKey :: "Store \<Rightarrow> UTXOs \<Rightarrow> error + Store" where
  "saveUTXOsByPublicKey s utxos =
     (case saveUTXOs_loop UTXO.PublicKeyHash ''Failed to save utxo set''
             (bucket_or_created (utxos_by_pkey s)) utxos of
        Inl err \<Rightarrow> Inl err
      | Inr b \<Rightarrow> Inr (s\<lparr>utxos_by_pkey := Some b\<rparr>))"

definition saveUTXOsByTransactionID :: "Store \<Rightarrow> UTXOs \<Rightarrow> error + Store" where
  "saveUTXOsByTransactionID s utxos =
     (case saveUTXOs_loop UTXO.TransactionID ''Failed to save utxo set for tx id''
             (bucket_or_created (utxos_by_tx s)) utxos of
        Inl err \<Rightarrow> Inl err
      | Inr b \<Rightarrow> Inr (s\<lparr>utxos_by_tx := Some b\<rparr>))"

definition saveUTXOs :: "Store \<Rightarrow> UTXOs \<Rightarrow> error + Store" where
  "saveUTXOs s utxos =
     (case saveUTXOsByPublicKey s utxos of
        Inl err \<Rightarrow> Inl (Wrap ''Failed to save utxo by public key'' err)
      | Inr s1 \<Rightarrow>
          (case saveUTXOsByTransactionID s1 utxos of
             Inl err \<Rightarrow> Inl (Wrap ''Failed to save utxo by transaction id'' err)
           | Inr s2 \<Rightarrow> Inr s2))"

text \<open>The three readers return no UTXOs and no error for a missing bucket or key.\<close>

definition read_utxos :: "UTXOs raw bucket option \<Rightarrow> bytes \<Rightarrow> error + UTXOs" where
  "read_utxos ob key =
     (case ob of
        None \<Rightarrow> Inr []
      | Some b \<Rightarrow>
          (case b key of
             None \<Rightarrow> Inr []
           | Some raw \<Rightarrow>
               (case json_Unmarshal raw of
                  Inl err \<Rightarrow> Inl (Wrap ''Failed to unmarshal utxos'' err)
                | Inr utxos \<Rightarrow> Inr utxos)))"

definition getUTXOsByPublicKey :: "Store \<Rightarrow> bytes \<Rightarrow> error + UTXOs" where
  "getUTXOsByPublicKey s publicKeyHash = read_utxos (utxos_by_pkey s) publicKeyHash"

definition getUTXOByTransactionID :: "Store \<Rightarrow> bytes \<Rightarrow> error + UTXOs" where
  "getUTXOByTransactionID s transactionID = read_utxos (utxos_by_tx s) transactionID"

text \<open>
  \<^verbatim>\<open>getTransactionUTXO\<close> returns a pointer: \<open>None\<close> is the nil pointer, returned with no
  error when the bucket, the key or the output number is missing.
\<close>

definition getTransactionUTXO :: "Store \<Rightarrow> bytes \<Rightarrow> go_int \<Rightarrow> error + UTXO option" where
  "getTransactionUTXO s transactionID vout =
     (case read_utxos (utxos_by_tx s) transactionID of
        Inl err \<Rightarrow> Inl err
      | Inr utxos \<Rightarrow> Inr (find (\<lambda>utxo. UTXO.Vout utxo = vout) utxos))"

definition deleteUTXOByPublicKey :: "Store \<Rightarrow> UTXO \<Rightarrow> error + Store" where
  "deleteUTXOByPublicKey s utxo =
     (case utxos_by_pkey s of
        None \<Rightarrow> Inr s
      | Some b \<Rightarrow>
          (case getUTXOsByPublicKey s (UTXO.PublicKeyHash utxo) of
             Inl err \<Rightarrow> Inl (Wrap ''Failed to retrieve utxo for deletion'' err)
           | Inr utxos \<Rightarrow>
               (let updated =
                      UTXOs_Filter (\<lambda>u. UTXO.TransactionID utxo \<noteq> UTXO.TransactionID u) utxos
                in case Bucket_Put b (UTXO.PublicKeyHash utxo) (Encoded updated) of
                     Inl err \<Rightarrow> Inl (Wrap ''Failed to store utxo'' err)
                   | Inr b' \<Rightarrow> Inr (s\<lparr>utxos_by_pkey := Some b'\<rparr>))))"

text \<open>
  \<^verbatim>\<open>deleteUTXOByTransactionID\<close> takes its bucket \<open>b\<close> from \<^verbatim>\<open>utxoByPublicKeyBucket()\<close>, reads
  the list with \<^verbatim>\<open>getUTXOByTransactionID\<close> (from the by-transaction bucket) and puts the
  filtered list into \<open>b\<close>.
\<close>

definition deleteUTXOByTransactionID :: "Store \<Rightarrow> UTXO \<Rightarrow> error + Store" where
  "deleteUTXOByTransactionID s utxo =
     (case utxos_by_pkey s of
        None \<Rightarrow> Inr s
      | Some b \<Rightarrow>
          (case getUTXOByTransactionID s (UTXO.TransactionID utxo) of
             Inl err \<Rightarrow> Inl (Wrap ''Failed to retrieve utxo for deletion'' err)
           | Inr utxos \<Rightarrow>
               (let updated =
                      UTXOs_Filter
                        (\<lambda>u. UTXO.Vout u \<noteq> UTXO.Vout utxo
                            \<or> UTXO.PublicKeyHash utxo \<noteq> UTXO.PublicKeyHash u) utxos
                in case Bucket_Put b (UTXO.TransactionID utxo) (Encoded updated) of
                     Inl err \<Rightarrow> Inl (Wrap ''Failed to store utxo'' err)
                   | Inr b' \<Rightarrow> Inr (s\<lparr>utxos_by_pkey := Some b'\<rparr>))))"

definition deleteUTXO :: "Store \<Rightarrow> UTXO \<Rightarrow> error + Store" where
  "deleteUTXO s utxo =
     (case deleteUTXOByPublicKey s utxo of
        Inl err \<Rightarrow> Inl (Wrap ''Failed to delete transaction by public key'' err)
      | Inr s1 \<Rightarrow>
          (case deleteUTXOByTransactionID s1 utxo of
             Inl err \<Rightarrow> Inl (Wrap ''Failed to delete transaction by transaction id'' err)
           | Inr s2 \<Rightarrow> Inr s2))"

text \<open>
  \<^verbatim>\<open>deleteTransactionUTXOs\<close> passes \<^verbatim>\<open>*utxo\<close> to \<^verbatim>\<open>deleteUTXO\<close> after checking the error of
  \<^verbatim>\<open>getTransactionUTXO\<close> only: at a nil \<^verbatim>\<open>utxo\<close> the dereference panics.
\<close>

fun deleteTransactionUTXOs_loop :: "Store \<Rightarrow> Inputs \<Rightarrow> error + Store" where
  "deleteTransactionUTXOs_loop s [] = Inr s"
| "deleteTransactionUTXOs_loop s (input # inputs) =
     (case getTransactionUTXO s (Input.TransactionID input) (Input.Vout input) of
        Inl err \<Rightarrow> Inl err
      | Inr None \<Rightarrow> Inl NilPointerDereference
      | Inr (Some utxo) \<Rightarrow>
          (case deleteUTXO s utxo of
             Inl err \<Rightarrow> Inl (Wrap ''Failed to delete utxo'' err)
           | Inr s' \<Rightarrow> deleteTransactionUTXOs_loop s' inputs))"

definition deleteTransactionUTXOs :: "Store \<Rightarrow> Transaction \<Rightarrow> error + Store" where
  "deleteTransactionUTXOs s transaction =
     deleteTransactionUTXOs_loop s (Transaction.Inputs transaction)"

subsection \<open>transaction.go\<close>

text \<open>
  \<^verbatim>\<open>newTX\<close> keeps the ID, the outputs and, of every input, the fields other than the
  \<^verbatim>\<open>Verifier\<close>; it keeps no timestamp. A saved transaction is kept as what \<^verbatim>\<open>toTransaction\<close>
  reads back from it.
\<close>

definition newTX :: "Transaction \<Rightarrow> Transaction" where
  "newTX transaction =
     \<lparr>Transaction.ID = Transaction.ID transaction,
      Transaction.Inputs = map (\<lambda>input. input\<lparr>Verifier := []\<rparr>) (Transaction.Inputs transaction),
      Transaction.Outputs = Transaction.Outputs transaction,
      Transaction.Timestamp = 0\<rparr>"

definition saveTransaction :: "Store \<Rightarrow> Transaction \<Rightarrow> error + Store" where
  "saveTransaction s transaction =
     (case Bucket_Put (bucket_or_created (ether s)) (Transaction.ID transaction)
             (Encoded (newTX transaction)) of
        Inl err \<Rightarrow> Inl (Wrap ''Failed to save transaction'' err)
      | Inr b \<Rightarrow> Inr (s\<lparr>ether := Some b\<rparr>))"

definition deleteTransaction :: "Store \<Rightarrow> Transaction \<Rightarrow> error + Store" where
  "deleteTransaction s transaction =
     (case ether s of
        None \<Rightarrow> Inr s
      | Some b \<Rightarrow>
          (case Bucket_Delete b (Transaction.ID transaction) of
             Inl err \<Rightarrow> Inl (Wrap ''Failed to delete transaction'' err)
           | Inr b' \<Rightarrow> Inr (s\<lparr>ether := Some b'\<rparr>)))"

text \<open>
  \<^verbatim>\<open>CastVote\<close> runs in one update of the database: on an error the store is what it was.
  Its helpers \<^verbatim>\<open>getUTXOs\<close> and \<^verbatim>\<open>overwriteUTXOs\<close> are not among the sources and are
  parameters. The input it builds has no \<^verbatim>\<open>Verifier\<close>.
\<close>

definition CastVote ::
  "stdlib \<Rightarrow> (Store \<Rightarrow> bytes \<Rightarrow> error + UTXOs) \<Rightarrow> (Store \<Rightarrow> bytes \<Rightarrow> UTXOs \<Rightarrow> error + Store)
     \<Rightarrow> Store \<Rightarrow> bytes \<Rightarrow> bytes \<Rightarrow> bytes \<Rightarrow> error option \<times> Store" where
  "CastVote lib getUTXOs overwriteUTXOs s from' to' signature =
     (case getUTXOs s from' of
        Inl err \<Rightarrow> (Some (Wrap ''Failed to retrieve utxos'' err), s)
      | Inr utxos \<Rightarrow>
          (case utxos of
             [] \<Rightarrow> (Some ErrInsufficientVotes, s)
           | usedUTXO # rest \<Rightarrow>
               (let inputs = [\<lparr>Input.TransactionID = UTXO.TransactionID usedUTXO,
                                Input.Vout = UTXO.Vout usedUTXO,
                                Input.PublicKeyHash = from',
                                Signature = signature, Verifier = []\<rparr>];
                    outputs = [\<lparr>Output.Value = 1, Output.PublicKeyHash = to'\<rparr>]
                              @ (if 1 <s UTXO.Value usedUTXO
                                 then [\<lparr>Output.Value = UTXO.Value usedUTXO - 1,
                                        Output.PublicKeyHash = from'\<rparr>]
                                 else [])
                in case NewTransaction lib inputs outputs of
                     Inl err \<Rightarrow> (Some (Wrap ''Failed to create new transaction'' err), s)
                   | Inr tr \<Rightarrow>
                       (case overwriteUTXOs s (UTXO.PublicKeyHash usedUTXO) [usedUTXO] of
                          Inl err \<Rightarrow> (Some (Wrap ''Failed to overwrite transaction'' err), s)
                        | Inr s1 \<Rightarrow>
                            (case saveTransaction s1 tr of
                               Inl err \<Rightarrow> (Some (Wrap ''Failed to save transaction'' err), s)
                             | Inr s2 \<Rightarrow>
                                 (case saveUTXOs s2 (Transaction_UTXOs tr) of
                                    Inl err \<Rightarrow> (Some (Wrap ''Failed to save UTXOs'' err), s)
                                  | Inr s3 \<Rightarrow> (None, s3)))))))"

subsection \<open>blockchain.go\<close>

definition tipKey :: bytes where
  "tipKey = ''l''"

text \<open>\<^verbatim>\<open>GetTip\<close>: what the bucket \<^verbatim>\<open>blocks\<close> holds under \<open>tipKey\<close>, nil without the bucket.\<close>

definition GetTip :: "Store \<Rightarrow> blocks_value option" where
  "GetTip s = (case blocks s of None \<Rightarrow> None | Some b \<Rightarrow> b tipKey)"

definition addBlock :: "Store \<Rightarrow> Block \<Rightarrow> error + bytes \<times> Store" where
  "addBlock s block =
     (case Bucket_Put (bucket_or_created (blocks s)) (Hash (Header block)) (Block_json block) of
        Inl err \<Rightarrow> Inl (Wrap ''Failed to put block'' err)
      | Inr b1 \<Rightarrow>
          (case Bucket_Put b1 tipKey (Tip_bytes (Hash (Header block))) of
             Inl err \<Rightarrow> Inl (Wrap ''Failed to update tip'' err)
           | Inr b2 \<Rightarrow> Inr (Hash (Header block), s\<lparr>blocks := Some b2\<rparr>)))"

text \<open>
  The loop of \<^verbatim>\<open>AddBlock\<close> calls \<^verbatim>\<open>saveUTXOS\<close>; the sources define \<^verbatim>\<open>saveUTXOs\<close>, which is what
  the loop calls here.
\<close>

fun AddBlock_loop :: "Store \<Rightarrow> Transactions \<Rightarrow> error + Store" where
  "AddBlock_loop s [] = Inr s"
| "AddBlock_loop s (transaction # transactions) =
     (case deleteTransaction s transaction of
        Inl err \<Rightarrow> Inl err
      | Inr s1 \<Rightarrow>
          (case saveUTXOs s1 (Transaction_UTXOs transaction) of
             Inl err \<Rightarrow> Inl err
           | Inr s2 \<Rightarrow> AddBlock_loop s2 transactions))"

text \<open>
  \<^verbatim>\<open>AddBlock\<close> returns the tip and the error of the update; the update is rolled back on an
  error.
\<close>

definition AddBlock :: "Store \<Rightarrow> Block \<Rightarrow> (bytes \<times> error option) \<times> Store" where
  "AddBlock s block =
     (case addBlock s block of
        Inl err \<Rightarrow> (([], Some err), s)
      | Inr (created, s1) \<Rightarrow>
          (case AddBlock_loop s1 (Transactions (Body block)) of
             Inl err \<Rightarrow> ((created, Some err), s)
           | Inr s2 \<Rightarrow> ((created, None), s2)))"

section \<open>Package websocket: envelopes\<close>

type_synonym Message = go_int

definition RegisterMessage :: Message where
  "RegisterMessage = 5"

definition NoActionMessage :: Message where
  "NoActionMessage = 9"

definition BlockForgedMessage :: Message where
  "BlockForgedMessage = 11"

definition DisconnectMessage :: Message where
  "DisconnectMessage = 12"

text \<open>
  The body of a \<^verbatim>\<open>Ping\<close> is a \<^verbatim>\<open>json.RawMessage\<close> (\<open>None\<close> is nil), the body of a \<^verbatim>\<open>Pong\<close> any
  value (\<open>None\<close> is the nil interface).
\<close>

record Ping =
  Message :: Message
  Body :: "bytes option"
  Signature :: string
  Sender :: string

record 'b Pong =
  Message :: Message
  Body :: "'b option"
  Signature :: string
  Sender :: string

text \<open>
  \<^verbatim>\<open>json.Marshal\<close> of a struct writes one member per field, in the order of the fields in the
  struct's declaration, under the name of the field's tag; a field tagged \<^verbatim>\<open>omitempty\<close> is
  left out when it is the empty string or zero. A field is given here by its key, its
  \<^verbatim>\<open>omitempty\<close> and its value; the encoded object is the list of its members in the order
  they are written.
\<close>

datatype field_value = String_value string | Int_value go_int | Encoded_value bytes

fun isEmptyValue :: "field_value \<Rightarrow> bool" where
  "isEmptyValue (String_value v) = (length v = 0)"
| "isEmptyValue (Int_value v) = (v = 0)"
| "isEmptyValue (Encoded_value v) = False"

type_synonym json_object = "(string \<times> field_value) list"

fun json_Marshal_struct :: "(string \<times> bool \<times> field_value) list \<Rightarrow> json_object" where
  "json_Marshal_struct [] = []"
| "json_Marshal_struct ((name, omitempty, v) # rest) =
     (if omitempty \<and> isEmptyValue v then json_Marshal_struct rest
      else (name, v) # json_Marshal_struct rest)"

text \<open>
  \<^verbatim>\<open>signablePing\<close> declares \<^verbatim>\<open>Body\<close> (\<^verbatim>\<open>json:"body"\<close>), \<^verbatim>\<open>Sender\<close> (\<^verbatim>\<open>json:"sender,omitempty"\<close>),
  \<^verbatim>\<open>Message\<close> (\<^verbatim>\<open>json:"message,omitempty"\<close>), in this order; \<^verbatim>\<open>signablePong\<close> the same with
  \<^verbatim>\<open>json:"message"\<close>. The encoding of the body (of a raw message, of any value) is the
  parameter \<open>marshalBody\<close>; it can fail.
\<close>

definition Ping_Signable :: "(bytes option \<Rightarrow> error + bytes) \<Rightarrow> Ping \<Rightarrow> error + json_object" where
  "Ping_Signable marshalBody p =
     (case marshalBody (Ping.Body p) of
        Inl err \<Rightarrow> Inl err
      | Inr body \<Rightarrow>
          Inr (json_Marshal_struct
                 [(''body'', False, Encoded_value body),
                  (''sender'', True, String_value (Ping.Sender p)),
                  (''message'', True, Int_value (Ping.Message p))]))"

definition Pong_Signable :: "('b option \<Rightarrow> error + bytes) \<Rightarrow> 'b Pong \<Rightarrow> error + json_object" where
  "Pong_Signable marshalBody p =
     (case marshalBody (Pong.Body p) of
        Inl err \<Rightarrow> Inl err
      | Inr body \<Rightarrow>
          Inr (json_Marshal_struct
                 [(''body'', False, Encoded_value body),
                  (''sender'', True, String_value (Pong.Sender p)),
                  (''message'', False, Int_value (Pong.Message p))]))"

definition NewNoActionPong :: "'b Pong" where
  "NewNoActionPong =
     \<lparr>Pong.Message = NoActionMessage, Pong.Body = None, Pong.Signature = [], Pong.Sender = []\<rparr>"

definition NewDisconnectPong :: "'b Pong" where
  "NewDisconnectPong =
     \<lparr>Pong.Message = DisconnectMessage, Pong.Body = None, Pong.Signature = [], Pong.Sender = []\<rparr>"

section \<open>Package handlers: BlockForged\<close>

record blockForgedBody =
  Height :: go_int
  Block :: Block

text \<open>
  The handler gets \<^verbatim>\<open>verifyBlock\<close> and \<^verbatim>\<open>addNewBlock\<close> as arguments. \<^verbatim>\<open>blockchain.GetHeight\<close> is
  not among the sources: \<open>GetHeight\<close> stands for \<^verbatim>\<open>blockchain.GetHeight(getTip, getBlock)\<close>,
  \<open>unmarshal\<close> for \<^verbatim>\<open>json.Unmarshal\<close> into a \<^verbatim>\<open>blockForgedBody\<close>. The second argument of the
  handler is not used.
\<close>

definition BlockForged ::
  "(bytes option \<Rightarrow> error + blockForgedBody) \<Rightarrow> (Store \<Rightarrow> error + go_int)
     \<Rightarrow> (Store \<Rightarrow> Block \<Rightarrow> bool) \<Rightarrow> (Store \<Rightarrow> Block \<Rightarrow> error option \<times> Store)
     \<Rightarrow> Store \<Rightarrow> Ping \<Rightarrow> string \<Rightarrow> (error + 'b Pong) \<times> Store" where
  "BlockForged unmarshal GetHeight verifyBlock addNewBlock s ping unused =
     (case unmarshal (Ping.Body ping) of
        Inl err \<Rightarrow> (Inl (Wrap ''Failed to unmarshal block forged body'' err), s)
      | Inr body \<Rightarrow>
          (case GetHeight s of
             Inl err \<Rightarrow> (Inl (Wrap ''Failed to get height'' err), s)
           | Inr height \<Rightarrow>
               if height + 1 <s blockForgedBody.Height body
               then (Inl (New ''Blockchain height is too low''), s)
               else if \<not> verifyBlock s (Block body) then (Inr NewDisconnectPong, s)
               else
                 (case addNewBlock s (Block body) of
                    (None, s') \<Rightarrow> (Inr NewNoActionPong, s')
                  | (Some err, s') \<Rightarrow>
                      if errors_Is err ErrInvalidBlock then (Inr NewDisconnectPong, s')
                      else (Inl (Wrap ''Failed to add new block to blockchain'' err), s'))))"

section \<open>What the store holds\<close>

text \<open>
  Reading the store: the value of the bucket \<^verbatim>\<open>blocks\<close> and of the mempool under a key, and
  whether a UTXO is in the list of its owner in the by-public-key index (\<open>in_by_pkey\<close>) and
  in the list of its transaction in the by-transaction index (\<open>in_by_tx\<close>), as
  \<^verbatim>\<open>getUTXOsByPublicKey\<close> and \<^verbatim>\<open>getUTXOByTransactionID\<close> return them. \<open>holds\<close> is the same on
  one bucket.
\<close>

definition blocks_Get :: "Store \<Rightarrow> bytes \<Rightarrow> blocks_value option" where
  "blocks_Get s key = (case blocks s of None \<Rightarrow> None | Some b \<Rightarrow> b key)"

definition in_ether :: "Store \<Rightarrow> bytes \<Rightarrow> bool" where
  "in_ether s id' = (case ether s of None \<Rightarrow> False | Some b \<Rightarrow> b id' \<noteq> None)"

definition in_by_pkey :: "Store \<Rightarrow> UTXO \<Rightarrow> bool" where
  "in_by_pkey s u =
     (case getUTXOsByPublicKey s (UTXO.PublicKeyHash u) of
        Inl err \<Rightarrow> False
      | Inr utxos \<Rightarrow> u \<in> set utxos)"

definition in_by_tx :: "Store \<Rightarrow> UTXO \<Rightarrow> bool" where
  "in_by_tx s u =
     (case getUTXOByTransactionID s (UTXO.TransactionID u) of
        Inl err \<Rightarrow> False
      | Inr utxos \<Rightarrow> u \<in> set utxos)"

definition holds :: "UTXOs raw bucket \<Rightarrow> bytes \<Rightarrow> UTXO \<Rightarrow> bool" where
  "holds b key u = (case b key of Some (Encoded utxos) \<Rightarrow> u \<in> set utxos | _ \<Rightarrow> False)"

definition ether_Get :: "Store \<Rightarrow> bytes \<Rightarrow> Transaction raw option" where
  "ether_Get s key = (case ether s of None \<Rightarrow> None | Some b \<Rightarrow> b key)"

section \<open>Sample stores\<close>

definition tx1 :: bytes where
  "tx1 = ''tx-1''"

definition alice :: bytes where
  "alice = ''alice''"

definition out0 :: UTXO where
  "out0 = \<lparr>UTXO.TransactionID = tx1, UTXO.PublicKeyHash = alice, UTXO.Value = 4, UTXO.Vout = 0\<rparr>"

definition out1 :: UTXO where
  "out1 = \<lparr>UTXO.TransactionID = tx1, UTXO.PublicKeyHash = alice, UTXO.Value = 6, UTXO.Vout = 1\<rparr>"

definition other :: UTXO where
  "other = \<lparr>UTXO.TransactionID = ''tx-2'', UTXO.PublicKeyHash = alice, UTXO.Value = 10, UTXO.Vout = 0\<rparr>"

definition store0 :: Store where
  "store0 =
     \<lparr>blocks = None, ether = None,
      utxos_by_pkey = Some [alice \<mapsto> Encoded [out0, other, out1]],
      utxos_by_tx = Some [tx1 \<mapsto> Encoded [out0, out1], ''tx-2'' \<mapsto> Encoded [other]]\<rparr>"

definition spend :: "(bytes \<times> go_int) list \<Rightarrow> Transaction" where
  "spend refs =
     \<lparr>Transaction.ID = ''tx-3'',
      Transaction.Inputs = map (\<lambda>(t, n). \<lparr>Input.TransactionID = t, Input.Vout = n,
                 Input.PublicKeyHash = alice, Input.Signature = ''sig'', Verifier = ''key''\<rparr>) refs,
      Transaction.Outputs = [], Transaction.Timestamp = 0\<rparr>"

text \<open>
  Stand-ins for the library functions, for the examples only: an encoder that writes the
  referenced transaction IDs and the recipients, a digest that reverses its input and a
  base64 encoder that changes nothing. \<open>accept\<close> is a verifier that accepts everything.
\<close>

definition lib0 :: stdlib where
  "lib0 =
     \<lparr>json_Marshal = (\<lambda>h. Inr (concat (map Input.TransactionID (hashable.Inputs h))
                              @ concat (map Output.PublicKeyHash (hashable.Outputs h)))),
      sha256_Sum256 = rev,
      time_Now_Unix = 1600000000,
      base64_EncodeToString = (\<lambda>b. b)\<rparr>"

definition accept :: "signable \<Rightarrow> string \<Rightarrow> string \<Rightarrow> error + bool" where
  "accept payload signature pKey = Inr True"

definition transfer :: "bytes \<Rightarrow> Transaction" where
  "transfer sender =
     \<lparr>Transaction.ID = ''tx-4'',
      Transaction.Inputs = [\<lparr>Input.TransactionID = tx1, Input.Vout = 0,
         Input.PublicKeyHash = sender, Input.Signature = ''sig'', Verifier = ''key''\<rparr>],
      Transaction.Outputs = [\<lparr>Output.Value = 4, Output.PublicKeyHash = ''bob''\<rparr>],
      Transaction.Timestamp = 0\<rparr>"

text \<open>A signer, a wallet and a public-key hash for the examples.\<close>

definition sign0 :: "signable \<Rightarrow> error + bytes" where
  "sign0 payload = Inr (''signed for '' @ Recipient payload)"

definition wallet0 :: Wallet where
  "wallet0 = \<lparr>PublicKey = ''alice-key'', PrivateKey = ''alice-secret''\<rparr>"

definition hash0 :: "Wallet \<Rightarrow> bytes" where
  "hash0 w = take 5 (PublicKey w)"

text \<open>
  Envelopes for the examples: a register \<^verbatim>\<open>Ping\<close>, an encoder of raw bodies that writes nil
  as \<open>null\<close>, a block of height 5 and two parsers of block-forged bodies.
\<close>

definition ping0 :: Ping where
  "ping0 = \<lparr>Ping.Message = RegisterMessage, Ping.Body = Some ''{\"nodeId\":\"n1\"}'',
             Ping.Signature = ''c2ln'', Ping.Sender = ''a2V5''\<rparr>"

definition raw0 :: "bytes option \<Rightarrow> error + bytes" where
  "raw0 body = (case body of None \<Rightarrow> Inr ''null'' | Some raw \<Rightarrow> Inr raw)"

definition block0 :: Block where
  "block0 =
     \<lparr>Header = \<lparr>Hash = ''hash-1'', PrevHash = ''hash-0'', Height = 5, Header.Timestamp = 0,
                 ForgerPublicKeyHash = ''forger''\<rparr>,
      Body = \<lparr>Transactions = []\<rparr>\<rparr>"

definition forged0 :: "bytes option \<Rightarrow> error + blockForgedBody" where
  "forged0 body = Inr \<lparr>blockForgedBody.Height = 5, Block = block0\<rparr>"

definition forged1 :: "bytes option \<Rightarrow> error + blockForgedBody" where
  "forged1 body = Inr \<lparr>blockForgedBody.Height = 1, Block = block0\<rparr>"

definition pingForged :: Ping where
  "pingForged = \<lparr>Ping.Message = BlockForgedMessage, Ping.Body = Some ''{}'',
             Ping.Signature = ''c2ln'', Ping.Sender = ''a2V5''\<rparr>"

text \<open>
  A store with the transfer in its mempool, a block that holds the transfer, a block whose
  hash is the key of the tip, and a stand-in for \<^verbatim>\<open>overwriteUTXOs\<close> that replaces the list
  under the key.
\<close>

definition store1 :: Store where
  "store1 = store0\<lparr>ether := Some [''tx-4'' \<mapsto> Encoded (newTX (transfer ''alice''))]\<rparr>"

definition block1 :: Block where
  "block1 =
     \<lparr>Header = \<lparr>Hash = ''hash-1'', PrevHash = ''hash-0'', Height = 1, Header.Timestamp = 0,
                 ForgerPublicKeyHash = ''forger''\<rparr>,
      Block.Body = \<lparr>Transactions = [transfer ''alice'']\<rparr>\<rparr>"

definition blockL :: Block where
  "blockL =
     \<lparr>Header = \<lparr>Hash = ''l'', PrevHash = ''hash-0'', Height = 1, Header.Timestamp = 0,
                 ForgerPublicKeyHash = ''forger''\<rparr>,
      Block.Body = \<lparr>Transactions = []\<rparr>\<rparr>"

definition overwrite0 :: "Store \<Rightarrow> bytes \<Rightarrow> UTXOs \<Rightarrow> error + Store" where
  "overwrite0 s key utxos =
     (case Bucket_Put (bucket_or_created (utxos_by_pkey s)) key (Encoded utxos) of
        Inl err \<Rightarrow> Inl err
      | Inr b \<Rightarrow> Inr (s\<lparr>utxos_by_pkey := Some b\<rparr>))"

section \<open>Properties\<close>

lemma UTXOs_Filter_into_eq:
  "UTXOs_Filter_into result criteria utxos = result @ filter criteria utxos"
  by (induction utxos arbitrary: result) simp_all

lemma UTXOs_Filter_eq: "UTXOs_Filter criteria utxos = filter criteria utxos"
  by (simp add: UTXOs_Filter_def UTXOs_Filter_into_eq)

lemma Bucket_Put_Inr:
  "Bucket_Put b key v = Inr b' \<Longrightarrow> b' = b(key \<mapsto> v) \<and> key \<noteq> [] \<and> length key \<le> MaxKeySize"
  by (auto simp: Bucket_Put_def split: if_splits)

subsection \<open>deleteUTXOByPublicKey filters by transaction ID only\<close>

text \<open>
  C9. Whenever \<^verbatim>\<open>deleteUTXOByPublicKey\<close> returns without error for a UTXO \<open>u\<close>, the list
  read back under \<open>u\<close>'s public-key hash is the list that was there before with every
  UTXO of \<open>u\<close>'s transaction ID taken out, whatever its output number: no UTXO of that
  transaction is left under the key, so the sibling outputs of the same owner go too.
\<close>

theorem deleteUTXOByPublicKey_filters_by_TransactionID:
  "deleteUTXOByPublicKey s u = Inr s' \<Longrightarrow>
     (\<exists>old. getUTXOsByPublicKey s (UTXO.PublicKeyHash u) = Inr old
        \<and> getUTXOsByPublicKey s' (UTXO.PublicKeyHash u)
            = Inr (filter (\<lambda>x. UTXO.TransactionID x \<noteq> UTXO.TransactionID u) old)
        \<and> (\<forall>x \<in> set old. UTXO.TransactionID x = UTXO.TransactionID u \<longrightarrow>
              (\<forall>new. getUTXOsByPublicKey s' (UTXO.PublicKeyHash u) = Inr new \<longrightarrow> x \<notin> set new)))"
proof (cases "utxos_by_pkey s")
  case None
  assume "deleteUTXOByPublicKey s u = Inr s'"
  with None have "s' = s"
    by (simp add: deleteUTXOByPublicKey_def)
  with None show ?thesis
    by (simp add: getUTXOsByPublicKey_def read_utxos_def)
next
  case (Some b)
  assume ok: "deleteUTXOByPublicKey s u = Inr s'"
  from ok Some obtain old where
    old: "getUTXOsByPublicKey s (UTXO.PublicKeyHash u) = Inr old"
    by (cases "getUTXOsByPublicKey s (UTXO.PublicKeyHash u)")
      (simp_all add: deleteUTXOByPublicKey_def)
  let ?new = "filter (\<lambda>x. UTXO.TransactionID x \<noteq> UTXO.TransactionID u) old"
  have flt: "UTXOs_Filter (\<lambda>x. UTXO.TransactionID u \<noteq> UTXO.TransactionID x) old = ?new"
    by (simp add: UTXOs_Filter_eq neq_commute)
  from ok Some old flt obtain b' where
    put: "Bucket_Put b (UTXO.PublicKeyHash u) (Encoded ?new) = Inr b'"
    and s': "s' = s\<lparr>utxos_by_pkey := Some b'\<rparr>"
    by (cases "Bucket_Put b (UTXO.PublicKeyHash u) (Encoded ?new)")
      (simp_all add: deleteUTXOByPublicKey_def)
  from put have "b' = b(UTXO.PublicKeyHash u \<mapsto> Encoded ?new)"
    by (simp add: Bucket_Put_Inr)
  with s' have new: "getUTXOsByPublicKey s' (UTXO.PublicKeyHash u) = Inr ?new"
    by (simp add: getUTXOsByPublicKey_def read_utxos_def json_Unmarshal_def)
  from old new show ?thesis
    by auto
qed

theorem deleteUTXOByPublicKey_filters_by_TransactionID_witness:
  "(\<exists>s'. deleteUTXOByPublicKey store0 out0 = Inr s'
      \<and> getUTXOsByPublicKey store0 alice = Inr [out0, other, out1]
      \<and> getUTXOsByPublicKey s' alice = Inr [other])"
proof -
  obtain s' where ok: "deleteUTXOByPublicKey store0 out0 = Inr s'"
    by (simp add: deleteUTXOByPublicKey_def store0_def getUTXOsByPublicKey_def read_utxos_def
        json_Unmarshal_def Bucket_Put_def MaxKeySize_def out0_def alice_def)
  have old: "getUTXOsByPublicKey store0 alice = Inr [out0, other, out1]"
    by (simp add: store0_def getUTXOsByPublicKey_def read_utxos_def json_Unmarshal_def)
  from deleteUTXOByPublicKey_filters_by_TransactionID [OF ok] old
  have "getUTXOsByPublicKey s' alice = Inr [other]"
    by (simp add: out0_def out1_def other_def tx1_def)
  with ok old show ?thesis
    by blast
qed

subsection \<open>deleteUTXO and the by-transaction index\<close>

lemma deleteUTXOByPublicKey_by_tx:
  "deleteUTXOByPublicKey s u = Inr s' \<Longrightarrow> utxos_by_tx s' = utxos_by_tx s"
  by (auto simp: deleteUTXOByPublicKey_def Let_def split: option.splits sum.splits)

lemma deleteUTXOByTransactionID_by_tx:
  "deleteUTXOByTransactionID s u = Inr s' \<Longrightarrow> utxos_by_tx s' = utxos_by_tx s"
  by (auto simp: deleteUTXOByTransactionID_def Let_def split: option.splits sum.splits)

lemma deleteUTXO_by_tx:
  "deleteUTXO s u = Inr s' \<Longrightarrow> utxos_by_tx s' = utxos_by_tx s"
proof -
  assume "deleteUTXO s u = Inr s'"
  then obtain s1 where
    "deleteUTXOByPublicKey s u = Inr s1" and "deleteUTXOByTransactionID s1 u = Inr s'"
    by (auto simp: deleteUTXO_def split: sum.splits)
  then show ?thesis
    using deleteUTXOByPublicKey_by_tx [of s u s1] deleteUTXOByTransactionID_by_tx [of s1 u s']
    by simp
qed

lemma getTransactionUTXO_by_tx:
  "utxos_by_tx s' = utxos_by_tx s \<Longrightarrow> getTransactionUTXO s' t n = getTransactionUTXO s t n"
  by (simp add: getTransactionUTXO_def)

lemma getTransactionUTXO_no_panic: "getTransactionUTXO s t n \<noteq> Inl NilPointerDereference"
  by (auto simp: getTransactionUTXO_def read_utxos_def split: option.splits sum.splits)

lemma store0_deleteUTXO:
  "deleteUTXO store0 out0 =
     Inr (store0\<lparr>utxos_by_pkey :=
            Some [alice \<mapsto> Encoded [other], tx1 \<mapsto> Encoded [out1]]\<rparr>)"
  by (simp add: deleteUTXO_def deleteUTXOByPublicKey_def deleteUTXOByTransactionID_def
      getUTXOsByPublicKey_def getUTXOByTransactionID_def read_utxos_def json_Unmarshal_def
      Bucket_Put_def MaxKeySize_def UTXOs_Filter_eq store0_def out0_def out1_def other_def
      alice_def tx1_def)

text \<open>
  C2. \<^verbatim>\<open>deleteUTXO\<close> at a UTXO that both indices hold: \<open>out0\<close>, output 0 of \<open>tx1\<close>, owned
  by \<open>alice\<close>, in \<open>store0\<close>. The call returns without error. It takes \<open>out0\<close> out of the
  owner's list, but the list of \<open>tx1\<close> in the by-transaction index is what it was:
  \<open>out0\<close> is still there, and the filtered list has been put into the by-public-key bucket
  under the key \<open>tx1\<close>. So \<open>out0\<close> is in one index and not in the other.
\<close>

theorem deleteUTXO_leaves_by_tx_index:
  "(\<exists>s'. deleteUTXO store0 out0 = Inr s'
      \<and> getUTXOsByPublicKey store0 alice = Inr [out0, other, out1]
      \<and> getUTXOByTransactionID store0 tx1 = Inr [out0, out1]
      \<and> getUTXOsByPublicKey s' alice = Inr [other]
      \<and> getUTXOByTransactionID s' tx1 = Inr [out0, out1]
      \<and> getUTXOsByPublicKey s' tx1 = Inr [out1])"
  unfolding store0_deleteUTXO
  by (simp add: getUTXOsByPublicKey_def getUTXOByTransactionID_def read_utxos_def
      json_Unmarshal_def store0_def alice_def tx1_def)

subsection \<open>deleteTransactionUTXOs and the nil pointer\<close>

lemma deleteTransactionUTXOs_loop_by_tx:
  "deleteTransactionUTXOs_loop s inputs = Inr s' \<Longrightarrow> utxos_by_tx s' = utxos_by_tx s"
proof (induction inputs arbitrary: s)
  case Nil
  then show ?case by simp
next
  case (Cons input inputs)
  from Cons.prems obtain utxo s1 where
    "deleteUTXO s utxo = Inr s1" and "deleteTransactionUTXOs_loop s1 inputs = Inr s'"
    by (auto split: sum.splits option.splits)
  with Cons.IH [of s1] show ?case
    by (simp add: deleteUTXO_by_tx)
qed

lemma deleteTransactionUTXOs_loop_append:
  "deleteTransactionUTXOs_loop s (before @ rest) =
     (case deleteTransactionUTXOs_loop s before of
        Inl err \<Rightarrow> Inl err
      | Inr s1 \<Rightarrow> deleteTransactionUTXOs_loop s1 rest)"
  by (induction before arbitrary: s) (simp_all split: sum.splits option.splits)

lemma deleteTransactionUTXOs_loop_present:
  "\<forall>input \<in> set inputs.
      getTransactionUTXO s (Input.TransactionID input) (Input.Vout input) \<noteq> Inr None \<Longrightarrow>
   deleteTransactionUTXOs_loop s inputs \<noteq> Inl NilPointerDereference"
proof (induction inputs arbitrary: s)
  case Nil
  then show ?case by simp
next
  case (Cons input inputs)
  show ?case
  proof (cases "getTransactionUTXO s (Input.TransactionID input) (Input.Vout input)")
    case (Inl err)
    with getTransactionUTXO_no_panic [of s "Input.TransactionID input" "Input.Vout input"]
    show ?thesis by simp
  next
    case (Inr found)
    with Cons.prems obtain utxo where found: "found = Some utxo"
      by (cases found) simp_all
    show ?thesis
    proof (cases "deleteUTXO s utxo")
      case (Inl err)
      with Inr found show ?thesis by simp
    next
      case del: (Inr s1)
      from del have "utxos_by_tx s1 = utxos_by_tx s"
        by (rule deleteUTXO_by_tx)
      then have "getTransactionUTXO s1 = getTransactionUTXO s"
        by (intro ext) (rule getTransactionUTXO_by_tx)
      with Cons.prems have "\<forall>i \<in> set inputs.
          getTransactionUTXO s1 (Input.TransactionID i) (Input.Vout i) \<noteq> Inr None"
        by simp
      from Cons.IH [OF this] Inr found del show ?thesis by simp
    qed
  qed
qed

text \<open>
  C10. \<^verbatim>\<open>deleteTransactionUTXOs\<close> does not panic on a nil pointer when every input of the
  transaction references a UTXO that \<^verbatim>\<open>getTransactionUTXO\<close> finds in the store it is
  called on. When the loop reaches an input (the inputs before it were handled without a
  returned error) for which \<^verbatim>\<open>getTransactionUTXO\<close> returns nil and no error, the call ends
  in the nil-pointer dereference.
\<close>

theorem deleteTransactionUTXOs_nil_dereference:
  "((\<forall>input \<in> set (Transaction.Inputs t).
        getTransactionUTXO s (Input.TransactionID input) (Input.Vout input) \<noteq> Inr None)
      \<longrightarrow> deleteTransactionUTXOs s t \<noteq> Inl NilPointerDereference)
   \<and> (Transaction.Inputs t = before @ input # rest
        \<and> deleteTransactionUTXOs s (t\<lparr>Transaction.Inputs := before\<rparr>) = Inr s1
        \<and> getTransactionUTXO s (Input.TransactionID input) (Input.Vout input) = Inr None
      \<longrightarrow> deleteTransactionUTXOs s t = Inl NilPointerDereference)"
proof (intro conjI impI)
  assume "\<forall>input \<in> set (Transaction.Inputs t).
    getTransactionUTXO s (Input.TransactionID input) (Input.Vout input) \<noteq> Inr None"
  then show "deleteTransactionUTXOs s t \<noteq> Inl NilPointerDereference"
    unfolding deleteTransactionUTXOs_def by (rule deleteTransactionUTXOs_loop_present)
next
  assume a: "Transaction.Inputs t = before @ input # rest
    \<and> deleteTransactionUTXOs s (t\<lparr>Transaction.Inputs := before\<rparr>) = Inr s1
    \<and> getTransactionUTXO s (Input.TransactionID input) (Input.Vout input) = Inr None"
  then have reached: "deleteTransactionUTXOs_loop s before = Inr s1"
    by (simp add: deleteTransactionUTXOs_def)
  then have "utxos_by_tx s1 = utxos_by_tx s"
    by (rule deleteTransactionUTXOs_loop_by_tx)
  then have "getTransactionUTXO s1 = getTransactionUTXO s"
    by (intro ext) (rule getTransactionUTXO_by_tx)
  with a have "getTransactionUTXO s1 (Input.TransactionID input) (Input.Vout input) = Inr None"
    by simp
  with a reached show "deleteTransactionUTXOs s t = Inl NilPointerDereference"
    by (simp add: deleteTransactionUTXOs_def deleteTransactionUTXOs_loop_append)
qed

lemma store0_getTransactionUTXO:
  "getTransactionUTXO store0 tx1 0 = Inr (Some out0)"
  "getTransactionUTXO store0 tx1 7 = Inr None"
  by (simp_all add: getTransactionUTXO_def read_utxos_def json_Unmarshal_def store0_def
      out0_def out1_def tx1_def)

theorem deleteTransactionUTXOs_nil_dereference_witness:
  "deleteTransactionUTXOs store0 (spend [(tx1, 0)]) \<noteq> Inl NilPointerDereference
   \<and> (\<exists>s1. deleteTransactionUTXOs store0 (spend [(tx1, 0)]) = Inr s1)
   \<and> getTransactionUTXO store0 tx1 7 = Inr None
   \<and> deleteTransactionUTXOs store0 (spend [(tx1, 0), (tx1, 7)]) = Inl NilPointerDereference"
proof -
  let ?i0 = "\<lparr>Input.TransactionID = tx1, Input.Vout = 0, Input.PublicKeyHash = alice,
              Input.Signature = ''sig'', Verifier = ''key''\<rparr>"
  let ?i7 = "\<lparr>Input.TransactionID = tx1, Input.Vout = 7, Input.PublicKeyHash = alice,
              Input.Signature = ''sig'', Verifier = ''key''\<rparr>"
  have present: "\<forall>input \<in> set (Transaction.Inputs (spend [(tx1, 0)])).
      getTransactionUTXO store0 (Input.TransactionID input) (Input.Vout input) \<noteq> Inr None"
    by (simp add: spend_def store0_getTransactionUTXO)
  have first: "deleteTransactionUTXOs store0 (spend [(tx1, 0)]) \<noteq> Inl NilPointerDereference"
    using deleteTransactionUTXOs_nil_dereference [of "spend [(tx1, 0)]" store0] present
    by blast
  obtain s1 where reached: "deleteTransactionUTXOs store0 (spend [(tx1, 0)]) = Inr s1"
    by (simp add: deleteTransactionUTXOs_def spend_def store0_getTransactionUTXO
        store0_deleteUTXO)
  have split: "Transaction.Inputs (spend [(tx1, 0), (tx1, 7)]) = [?i0] @ ?i7 # []"
    by (simp add: spend_def)
  have before: "(spend [(tx1, 0), (tx1, 7)])\<lparr>Transaction.Inputs := [?i0]\<rparr> = spend [(tx1, 0)]"
    by (simp add: spend_def)
  have absent: "getTransactionUTXO store0 (Input.TransactionID ?i7) (Input.Vout ?i7) = Inr None"
    by (simp add: store0_getTransactionUTXO)
  have second:
    "deleteTransactionUTXOs store0 (spend [(tx1, 0), (tx1, 7)]) = Inl NilPointerDereference"
    using deleteTransactionUTXOs_nil_dereference
      [of "spend [(tx1, 0), (tx1, 7)]" store0 "[?i0]" ?i7 "[]" s1]
      split before reached absent
    by simp
  from first reached second store0_getTransactionUTXO(2) show ?thesis
    by blast
qed

subsection \<open>VerifyTransactions\<close>

lemma Outputs_Find_find:
  "Outputs_Find criteria outs =
     (case find criteria outs of
        None \<Rightarrow> (\<lparr>Output.Value = 0, Output.PublicKeyHash = []\<rparr>, False)
      | Some out \<Rightarrow> (out, True))"
  by (induction outs) simp_all

lemma VerifyTransactions_loop_iff:
  "VerifyTransactions_loop lib getUTXO verifier outputs inputs \<longleftrightarrow>
   (\<forall>input \<in> set inputs. \<exists>receiver utxo.
      find (\<lambda>out. Output.PublicKeyHash out \<noteq> Input.PublicKeyHash input) outputs = Some receiver
      \<and> getUTXO (Input.TransactionID input) (Input.Vout input) = Inr (Some utxo)
      \<and> verifier \<lparr>Recipient = Output.PublicKeyHash receiver,
                   signable.Sender = Input.PublicKeyHash input, signable.Value = UTXO.Value utxo\<rparr>
           (base64_EncodeToString lib (Input.Signature input))
           (base64_EncodeToString lib (Verifier input)) = Inr True)"
  by (induction inputs)
    (auto simp: Outputs_Find_find Let_def split: option.splits sum.splits)

lemma transfer_verified:
  "sender \<noteq> ''bob'' \<Longrightarrow>
   VerifyTransactions lib0 (getTransactionUTXO store0) accept (transfer sender)"
  by (simp add: VerifyTransactions_def transfer_def accept_def store0_getTransactionUTXO)

text \<open>
  C1, as stated, fails. The claim has the returned function reject a transaction with an
  input whose \<^verbatim>\<open>Verifier\<close> does not hash to the input's \<^verbatim>\<open>PublicKeyHash\<close>.
  \<^verbatim>\<open>VerifyTransactions\<close> hashes nothing: with the UTXO present and a verifier that accepts,
  it accepts the transfer of output 0 of \<open>tx1\<close> to \<open>bob\<close> with the public key \<open>key\<close>
  both when the input names \<open>alice\<close> as the spender and when it names \<open>mallory\<close>. Whatever
  the hash function of public keys is, \<open>key\<close> does not hash to both, so one of the two
  accepted transactions has an input whose \<^verbatim>\<open>Verifier\<close> does not hash to its
  \<^verbatim>\<open>PublicKeyHash\<close>.
\<close>

theorem VerifyTransactions_accepts_unhashed_Verifier:
  "\<forall>hashedPublicKey.
     (VerifyTransactions lib0 (getTransactionUTXO store0) accept (transfer ''alice'')
        \<and> (\<exists>input \<in> set (Transaction.Inputs (transfer ''alice'')).
              hashedPublicKey (Verifier input) \<noteq> Input.PublicKeyHash input))
   \<or> (VerifyTransactions lib0 (getTransactionUTXO store0) accept (transfer ''mallory'')
        \<and> (\<exists>input \<in> set (Transaction.Inputs (transfer ''mallory'')).
              hashedPublicKey (Verifier input) \<noteq> Input.PublicKeyHash input))"
proof
  fix hashedPublicKey :: "bytes \<Rightarrow> bytes"
  have a: "VerifyTransactions lib0 (getTransactionUTXO store0) accept (transfer ''alice'')"
    by (rule transfer_verified) simp
  have m: "VerifyTransactions lib0 (getTransactionUTXO store0) accept (transfer ''mallory'')"
    by (rule transfer_verified) simp
  show "(VerifyTransactions lib0 (getTransactionUTXO store0) accept (transfer ''alice'')
        \<and> (\<exists>input \<in> set (Transaction.Inputs (transfer ''alice'')).
              hashedPublicKey (Verifier input) \<noteq> Input.PublicKeyHash input))
   \<or> (VerifyTransactions lib0 (getTransactionUTXO store0) accept (transfer ''mallory'')
        \<and> (\<exists>input \<in> set (Transaction.Inputs (transfer ''mallory'')).
              hashedPublicKey (Verifier input) \<noteq> Input.PublicKeyHash input))"
  proof (cases "hashedPublicKey ''key'' = ''alice''")
    case True
    with m show ?thesis by (simp add: transfer_def)
  next
    case False
    with a show ?thesis by (simp add: transfer_def)
  qed
qed

text \<open>
  C1, amended. The function returned by \<^verbatim>\<open>VerifyTransactions(getTransactionUTXO, verifier)\<close>
  returns true exactly when every input of the transaction passes these checks: the
  outputs hold an output whose \<^verbatim>\<open>PublicKeyHash\<close> differs from the input's (the first such
  output is the receiver); the lookup of the input's \<^verbatim>\<open>TransactionID\<close> and \<^verbatim>\<open>Vout\<close> returns a
  UTXO and no error; and the verifier returns true and no error on the payload
  \<open>{Recipient: receiver's PublicKeyHash, Sender: input's PublicKeyHash, Value: the UTXO's
  Value}\<close>, the base64 of the input's signature and the base64 of its \<^verbatim>\<open>Verifier\<close>. It
  returns false as soon as one input fails one of them. Whether the \<^verbatim>\<open>Verifier\<close> hashes to
  the input's \<^verbatim>\<open>PublicKeyHash\<close> is not checked by this function.
\<close>

theorem VerifyTransactions_iff:
  "VerifyTransactions lib getUTXO verifier tx \<longleftrightarrow>
   (\<forall>input \<in> set (Transaction.Inputs tx). \<exists>receiver utxo.
      find (\<lambda>out. Output.PublicKeyHash out \<noteq> Input.PublicKeyHash input)
        (Transaction.Outputs tx) = Some receiver
      \<and> getUTXO (Input.TransactionID input) (Input.Vout input) = Inr (Some utxo)
      \<and> verifier \<lparr>Recipient = Output.PublicKeyHash receiver,
                   signable.Sender = Input.PublicKeyHash input, signable.Value = UTXO.Value utxo\<rparr>
           (base64_EncodeToString lib (Input.Signature input))
           (base64_EncodeToString lib (Verifier input)) = Inr True)"
  unfolding VerifyTransactions_def by (rule VerifyTransactions_loop_iff)

theorem VerifyTransactions_iff_witness:
  "VerifyTransactions lib0 (getTransactionUTXO store0) accept (transfer ''alice'')
   \<and> find (\<lambda>out. Output.PublicKeyHash out \<noteq> ''alice'') (Transaction.Outputs (transfer ''alice''))
       = Some \<lparr>Output.Value = 4, Output.PublicKeyHash = ''bob''\<rparr>
   \<and> \<not> VerifyTransactions lib0 (getTransactionUTXO store0) accept (transfer ''bob'')"
proof -
  have "VerifyTransactions lib0 (getTransactionUTXO store0) accept (transfer ''alice'')"
    unfolding VerifyTransactions_iff
      [of lib0 "getTransactionUTXO store0" accept "transfer ''alice''"]
    by (simp add: transfer_def accept_def store0_getTransactionUTXO)
  moreover have "\<not> VerifyTransactions lib0 (getTransactionUTXO store0) accept (transfer ''bob'')"
    unfolding VerifyTransactions_iff
      [of lib0 "getTransactionUTXO store0" accept "transfer ''bob''"]
    by (simp add: transfer_def)
  ultimately show ?thesis
    by (simp add: transfer_def)
qed

subsection \<open>The ID of a new transaction\<close>

text \<open>
  C6. The ID of the transaction that \<^verbatim>\<open>NewTransaction\<close> returns is the SHA-256 digest of the
  encoding of the inputs and the outputs (a \<^verbatim>\<open>hashable\<close> whose timestamp field is left at
  zero): the clock is not part of it. A second call with the same inputs and outputs at
  another time returns the same ID. The call returns a transaction whenever the encoder
  does not fail.
\<close>

theorem NewTransaction_ID:
  "(NewTransaction lib inputs outputs = Inr tx \<longrightarrow>
      (\<exists>raw. json_Marshal lib \<lparr>hashable.Inputs = inputs, hashable.Outputs = outputs,
                               hashable.Timestamp = 0\<rparr> = Inr raw
         \<and> Transaction.ID tx = sha256_Sum256 lib raw))
   \<and> (NewTransaction lib inputs outputs = Inr tx
        \<and> NewTransaction (lib\<lparr>time_Now_Unix := later\<rparr>) inputs outputs = Inr tx'
      \<longrightarrow> Transaction.ID tx' = Transaction.ID tx)
   \<and> ((\<exists>raw. json_Marshal lib \<lparr>hashable.Inputs = inputs, hashable.Outputs = outputs,
                               hashable.Timestamp = 0\<rparr> = Inr raw)
      \<longrightarrow> (\<exists>t. NewTransaction lib inputs outputs = Inr t))"
  by (auto simp: NewTransaction_def newID_def hash_def split: sum.splits)

theorem NewTransaction_ID_witness:
  "(\<exists>tx tx'. NewTransaction lib0 (Transaction.Inputs (transfer ''alice''))
                (Transaction.Outputs (transfer ''alice'')) = Inr tx
      \<and> NewTransaction (lib0\<lparr>time_Now_Unix := 1600000060\<rparr>)
           (Transaction.Inputs (transfer ''alice''))
           (Transaction.Outputs (transfer ''alice'')) = Inr tx'
      \<and> Transaction.Timestamp tx = 1600000000 \<and> Transaction.Timestamp tx' = 1600000060
      \<and> Transaction.ID tx = ''bob1-xt'' \<and> Transaction.ID tx' = Transaction.ID tx)"
proof -
  let ?ins = "Transaction.Inputs (transfer ''alice'')"
  let ?outs = "Transaction.Outputs (transfer ''alice'')"
  obtain tx where tx: "NewTransaction lib0 ?ins ?outs = Inr tx"
    by (simp add: NewTransaction_def newID_def hash_def lib0_def)
  obtain tx' where tx': "NewTransaction (lib0\<lparr>time_Now_Unix := 1600000060\<rparr>) ?ins ?outs = Inr tx'"
    by (simp add: NewTransaction_def newID_def hash_def lib0_def)
  from NewTransaction_ID [of lib0 ?ins ?outs tx 1600000060 tx'] tx tx'
  have same: "Transaction.ID tx' = Transaction.ID tx"
    and "\<exists>raw. json_Marshal lib0 \<lparr>hashable.Inputs = ?ins, hashable.Outputs = ?outs,
              hashable.Timestamp = 0\<rparr> = Inr raw \<and> Transaction.ID tx = sha256_Sum256 lib0 raw"
    by simp_all
  then have id: "Transaction.ID tx = ''bob1-xt''"
    by (auto simp: lib0_def transfer_def tx1_def)
  from tx have t: "Transaction.Timestamp tx = 1600000000"
    by (auto simp: NewTransaction_def newID_def hash_def lib0_def)
  from tx' have t': "Transaction.Timestamp tx' = 1600000060"
    by (auto simp: NewTransaction_def newID_def hash_def lib0_def)
  from tx tx' same id t t' show ?thesis
    by blast
qed

subsection \<open>NewStakeTransaction\<close>


lemma sint_two: "sint (2 :: go_int) = 2"
  by simp

lemma sint_five: "sint (5 :: go_int) = 5"
  by simp

lemma sdiv_two_nonneg: "0 \<le> k \<Longrightarrow> k sdiv 2 = k div 2" for k :: int
  by (simp add: signed_divide_int_def sgn_if)

lemma sdiv_two_neg: "k < 0 \<Longrightarrow> k sdiv 2 = - ((- k) div 2)" for k :: int
  by (simp add: signed_divide_int_def sgn_if)

lemma sdiv_two_bounds: "min k 0 \<le> k sdiv 2 \<and> k sdiv 2 \<le> max k 0" for k :: int
proof (cases "0 \<le> k")
  case True
  then show ?thesis by (simp add: sdiv_two_nonneg)
next
  case False
  then have "k sdiv 2 = - ((- k) div 2)" by (simp add: sdiv_two_neg)
  with False show ?thesis by simp
qed

lemma sint_go_quo_two: "sint (go_quo t 2) = sint t sdiv 2"
proof -
  have lo: "- (2 ^ 63) \<le> sint t" and hi: "sint t < 2 ^ 63"
    using sint_greater_eq [of t] sint_less [of t] by simp_all
  from sdiv_two_bounds [of "sint t"] lo hi
  have "- (2 ^ 63) \<le> sint t sdiv 2" and "sint t sdiv 2 < 2 ^ 63"
    by (auto simp: min_def max_def split: if_splits)
  then have "signed_take_bit 63 (sint t sdiv 2) = sint t sdiv 2"
    by (simp add: signed_take_bit_int_eq_self)
  then show ?thesis
    by (simp add: go_quo_def sint_sbintrunc')
qed

lemma go_quo_VoteValue: "go_quo VoteValue 2 = 5"
  by (simp add: go_quo_def VoteValue_def signed_divide_int_def)

lemma target_le_total:
  assumes "\<not> go_quo t 2 <s 5"
  shows "go_quo t 2 \<le>s t" and "0 <s go_quo t 2"
proof -
  from assms have five: "5 \<le> sint t sdiv 2"
    by (simp add: word_sless_alt sint_go_quo_two)
  have pos: "0 < sint t"
  proof (rule ccontr)
    assume "\<not> 0 < sint t"
    then have "sint t sdiv 2 \<le> 0"
      by (simp add: signed_divide_int_def sgn_if zero_le_mult_iff mult_le_0_iff)
    with five show False by simp
  qed
  then have "sint t sdiv 2 = sint t div 2"
    by (simp add: signed_divide_int_def sgn_if)
  with pos have "sint t sdiv 2 \<le> sint t"
    by simp
  then show "go_quo t 2 \<le>s t"
    by (simp add: word_sle_eq sint_go_quo_two)
  from five show "0 <s go_quo t 2"
    by (simp add: word_sless_alt sint_go_quo_two)
qed

lemma UTXOs_Sum_from_eq: "UTXOs_Sum_from running utxos = running + UTXOs_Sum utxos"
  unfolding UTXOs_Sum_def
proof (induction utxos arbitrary: running)
  case Nil
  then show ?case by simp
next
  case (Cons u utxos)
  from Cons [of "running + UTXO.Value u"] Cons [of "0 + UTXO.Value u"]
  show ?case by simp
qed

lemma UTXOs_Sum_Nil: "UTXOs_Sum [] = 0"
  by (simp add: UTXOs_Sum_def)

lemma UTXOs_Sum_Cons: "UTXOs_Sum (u # utxos) = UTXO.Value u + UTXOs_Sum utxos"
  using UTXOs_Sum_from_eq [of "0 + UTXO.Value u" utxos] by (simp add: UTXOs_Sum_def)

lemma Outputs_Sum_from_eq: "Outputs_Sum_from running outs = running + Outputs_Sum outs"
  unfolding Outputs_Sum_def
proof (induction outs arbitrary: running)
  case Nil
  then show ?case by simp
next
  case (Cons out outs)
  from Cons [of "running + Output.Value out"] Cons [of "0 + Output.Value out"]
  show ?case by simp
qed

lemma Outputs_Sum_Cons: "Outputs_Sum (out # outs) = Output.Value out + Outputs_Sum outs"
  using Outputs_Sum_from_eq [of "0 + Output.Value out" outs] by (simp add: Outputs_Sum_def)

lemma Outputs_Sum_Nil: "Outputs_Sum [] = 0"
  by (simp add: Outputs_Sum_def)

lemma sle_antisym: "a \<le>s b \<Longrightarrow> \<not> a <s b \<Longrightarrow> a = b" for a b :: go_int
proof -
  assume "a \<le>s b" and "\<not> a <s b"
  then have "sint a = sint b"
    by (simp add: word_sle_eq word_sless_alt)
  then show "a = b"
    by (rule signed_word_eqI)
qed

lemma not_sle_iff: "\<not> a \<le>s b \<longleftrightarrow> b <s a" for a b :: go_int
  by (auto simp: word_sle_eq word_sless_alt)

lemma NewStakeTransaction_loop_Inl:
  "NewStakeTransaction_loop SignRaw ch ck sh target summed inputs utxos = Inl err \<Longrightarrow>
   \<exists>msg cause. err = Wrap msg cause"
  by (induction utxos arbitrary: summed inputs)
    (auto simp: Let_def split: sum.splits if_splits)

lemma NewStakeTransaction_loop_total:
  "\<forall>p. \<exists>sg. SignRaw p = Inr sg \<Longrightarrow>
   \<exists>r. NewStakeTransaction_loop SignRaw ch ck sh target summed inputs utxos = Inr r"
proof (induction utxos arbitrary: summed inputs)
  case Nil
  then show ?case by simp
next
  case (Cons u utxos)
  from Cons.prems obtain sg where
    "SignRaw \<lparr>Recipient = sh, signable.Sender = ch, signable.Value = UTXO.Value u\<rparr> = Inr sg"
    by blast
  with Cons.IH [OF Cons.prems] show ?case
    by (simp add: Let_def)
qed

lemma NewStakeTransaction_loop_Inr:
  assumes "NewStakeTransaction_loop SignRaw ch ck sh target summed inputs utxos
             = Inr (summed', inputs')"
    and "utxos \<noteq> []"
  shows "\<exists>k new. 0 < k \<and> k \<le> length utxos
      \<and> summed' = summed + UTXOs_Sum (take k utxos)
      \<and> inputs' = inputs @ new
      \<and> list_all2 (\<lambda>input utxo.
            Input.TransactionID input = UTXO.TransactionID utxo
          \<and> Input.Vout input = UTXO.Vout utxo
          \<and> Input.PublicKeyHash input = ch \<and> Verifier input = ck
          \<and> SignRaw \<lparr>Recipient = sh, signable.Sender = ch, signable.Value = UTXO.Value utxo\<rparr>
              = Inr (Input.Signature input)) new (take k utxos)
      \<and> (\<forall>j. 0 < j \<and> j < k \<longrightarrow> summed + UTXOs_Sum (take j utxos) <s target)
      \<and> (k < length utxos \<longrightarrow> target \<le>s summed')"
  using assms
proof (induction utxos arbitrary: summed inputs)
  case Nil
  then show ?case by simp
next
  case (Cons u utxos)
  let ?R = "\<lambda>input utxo.
            Input.TransactionID input = UTXO.TransactionID utxo
          \<and> Input.Vout input = UTXO.Vout utxo
          \<and> Input.PublicKeyHash input = ch \<and> Verifier input = ck
          \<and> SignRaw \<lparr>Recipient = sh, signable.Sender = ch, signable.Value = UTXO.Value utxo\<rparr>
              = Inr (Input.Signature input)"
  let ?s1 = "summed + UTXO.Value u"
  from Cons.prems(1) obtain sg where
    sg: "SignRaw \<lparr>Recipient = sh, signable.Sender = ch, signable.Value = UTXO.Value u\<rparr> = Inr sg"
    by (cases "SignRaw \<lparr>Recipient = sh, signable.Sender = ch, signable.Value = UTXO.Value u\<rparr>")
      (simp_all add: Let_def)
  let ?i = "\<lparr>Input.TransactionID = UTXO.TransactionID u, Input.Vout = UTXO.Vout u,
             Input.PublicKeyHash = ch, Input.Signature = sg, Verifier = ck\<rparr>"
  have Ri: "?R ?i u"
    using sg by simp
  show ?case
  proof (cases "target \<le>s ?s1 \<or> utxos = []")
    case True
    with Cons.prems(1) sg have res: "summed' = ?s1" "inputs' = inputs @ [?i]"
      by (auto simp: Let_def split: if_splits)
    have "0 < (1::nat) \<and> 1 \<le> length (u # utxos)
      \<and> summed' = summed + UTXOs_Sum (take 1 (u # utxos))
      \<and> inputs' = inputs @ [?i]
      \<and> list_all2 ?R [?i] (take 1 (u # utxos))
      \<and> (\<forall>j. 0 < j \<and> j < 1 \<longrightarrow> summed + UTXOs_Sum (take j (u # utxos)) <s target)
      \<and> (1 < length (u # utxos) \<longrightarrow> target \<le>s summed')"
      using res Ri True by (auto simp: UTXOs_Sum_Cons UTXOs_Sum_Nil)
    then show ?thesis by blast
  next
    case False
    then have cont: "\<not> target \<le>s ?s1" and ne: "utxos \<noteq> []"
      by simp_all
    from Cons.prems(1) sg cont have rec:
      "NewStakeTransaction_loop SignRaw ch ck sh target ?s1 (inputs @ [?i]) utxos
         = Inr (summed', inputs')"
      by (simp add: Let_def)
    from Cons.IH [OF rec ne] obtain k new where
      k: "0 < k" "k \<le> length utxos"
      and sum: "summed' = ?s1 + UTXOs_Sum (take k utxos)"
      and ins: "inputs' = (inputs @ [?i]) @ new"
      and rel: "list_all2 ?R new (take k utxos)"
      and before: "\<forall>j. 0 < j \<and> j < k \<longrightarrow> ?s1 + UTXOs_Sum (take j utxos) <s target"
      and reached: "k < length utxos \<longrightarrow> target \<le>s summed'"
      by blast
    have before': "\<forall>j. 0 < j \<and> j < Suc k \<longrightarrow>
        summed + UTXOs_Sum (take j (u # utxos)) <s target"
    proof (intro allI impI)
      fix j assume j: "0 < j \<and> j < Suc k"
      then obtain j' where j': "j = Suc j'" "j' < k"
        by (cases j) simp_all
      show "summed + UTXOs_Sum (take j (u # utxos)) <s target"
      proof (cases "j' = 0")
        case True
        with j' cont show ?thesis
          by (simp add: UTXOs_Sum_Cons UTXOs_Sum_Nil not_sle_iff)
      next
        case False
        with before j' have "?s1 + UTXOs_Sum (take j' utxos) <s target"
          by simp
        with j' show ?thesis
          by (simp add: UTXOs_Sum_Cons add.assoc)
      qed
    qed
    have "0 < Suc k \<and> Suc k \<le> length (u # utxos)
      \<and> summed' = summed + UTXOs_Sum (take (Suc k) (u # utxos))
      \<and> inputs' = inputs @ (?i # new)
      \<and> list_all2 ?R (?i # new) (take (Suc k) (u # utxos))
      \<and> (\<forall>j. 0 < j \<and> j < Suc k \<longrightarrow> summed + UTXOs_Sum (take j (u # utxos)) <s target)
      \<and> (Suc k < length (u # utxos) \<longrightarrow> target \<le>s summed')"
      using k sum ins rel Ri before' reached
      by (simp add: UTXOs_Sum_Cons add.assoc)
    then show ?thesis by blast
  qed
qed

text \<open>
  C4. Let the UTXOs of the stake creator have the total \<open>T\<close> and let \<open>target\<close> be \<open>T / 2\<close>
  (Go's division of machine integers). The function returned by \<^verbatim>\<open>NewStakeTransaction\<close>
  fails with \<^verbatim>\<open>ErrCantForge\<close> exactly when \<open>target < 5\<close>. When it returns a transaction, the
  inputs consume the first \<open>k\<close> UTXOs in order, \<open>k\<close> being the first count at which the
  running sum reaches \<open>target\<close> (no shorter prefix does, and the sum of the \<open>k\<close> does); the
  outputs are \<open>target\<close> to the stakeholder and, exactly when the sum exceeds \<open>target\<close>, the
  rest back to the stake creator, so the outputs add up to the consumed sum. It does
  return a transaction when \<open>target\<close> is at least 5 and neither the signer nor the encoder
  fails.
\<close>

theorem NewStakeTransaction_stake:
  assumes utxos: "getUTXOs (publicKeyHash stakeCreator) = Inr utxos"
  shows "(let target = go_quo (UTXOs_Sum utxos) 2;
              result = NewStakeTransaction lib getUTXOs SignRaw publicKeyHash stakeCreator
                         stakeholder
          in (result = Inl ErrCantForge \<longleftrightarrow> target <s 5)
           \<and> (\<forall>tx. result = Inr tx \<longrightarrow>
                (\<exists>k. 0 < k \<and> k \<le> length utxos
                   \<and> list_all2 (\<lambda>input utxo.
                          Input.TransactionID input = UTXO.TransactionID utxo
                        \<and> Input.Vout input = UTXO.Vout utxo
                        \<and> Input.PublicKeyHash input = publicKeyHash stakeCreator
                        \<and> Verifier input = PublicKey stakeCreator
                        \<and> SignRaw \<lparr>Recipient = stakeholder,
                                     signable.Sender = publicKeyHash stakeCreator,
                                     signable.Value = UTXO.Value utxo\<rparr>
                            = Inr (Input.Signature input))
                        (Transaction.Inputs tx) (take k utxos)
                   \<and> (\<forall>j<k. UTXOs_Sum (take j utxos) <s target)
                   \<and> target \<le>s UTXOs_Sum (take k utxos)
                   \<and> Transaction.Outputs tx =
                        \<lparr>Output.Value = target, Output.PublicKeyHash = stakeholder\<rparr>
                        # (if target <s UTXOs_Sum (take k utxos)
                           then [\<lparr>Output.Value = UTXOs_Sum (take k utxos) - target,
                                  Output.PublicKeyHash = publicKeyHash stakeCreator\<rparr>]
                           else [])
                   \<and> Outputs_Sum (Transaction.Outputs tx) = UTXOs_Sum (take k utxos)))
           \<and> (\<not> target <s 5 \<and> (\<forall>p. \<exists>sg. SignRaw p = Inr sg)
                \<and> (\<forall>h. \<exists>raw. json_Marshal lib h = Inr raw)
              \<longrightarrow> (\<exists>tx. result = Inr tx)))"
proof -
  define target where "target = go_quo (UTXOs_Sum utxos) 2"
  define ch where "ch = publicKeyHash stakeCreator"
  define result where
    "result = NewStakeTransaction lib getUTXOs SignRaw publicKeyHash stakeCreator stakeholder"
  define loop where
    "loop = NewStakeTransaction_loop SignRaw ch (PublicKey stakeCreator) stakeholder target
              0 [] utxos"
  define outputs where "outputs = (\<lambda>summed.
      [\<lparr>Output.Value = target, Output.PublicKeyHash = stakeholder\<rparr>]
      @ (if target <s summed
         then [\<lparr>Output.Value = summed - target, Output.PublicKeyHash = ch\<rparr>] else []))"
  have unfolded: "result =
      (if target <s 5 then Inl ErrCantForge
       else (case loop of
               Inl err \<Rightarrow> Inl err
             | Inr (summed, inputs) \<Rightarrow> NewTransaction lib inputs (outputs summed)))"
    using utxos
    by (auto simp: result_def NewStakeTransaction_def Let_def go_quo_VoteValue target_def
        loop_def ch_def outputs_def split: sum.splits)
  have cant: "result = Inl ErrCantForge \<longleftrightarrow> target <s 5"
  proof
    assume r: "result = Inl ErrCantForge"
    show "target <s 5"
    proof (rule ccontr)
      assume n: "\<not> target <s 5"
      show False
      proof (cases loop)
        case (Inl err)
        then obtain msg cause where "err = Wrap msg cause"
          unfolding loop_def using NewStakeTransaction_loop_Inl by blast
        with Inl n r unfolded show False by simp
      next
        case (Inr p)
        with n r unfolded show False
          by (cases p) (auto simp: NewTransaction_def split: sum.splits)
      qed
    qed
  next
    assume "target <s 5"
    with unfolded show "result = Inl ErrCantForge" by simp
  qed
  have ok: "\<exists>k. 0 < k \<and> k \<le> length utxos
       \<and> list_all2 (\<lambda>input utxo.
              Input.TransactionID input = UTXO.TransactionID utxo
            \<and> Input.Vout input = UTXO.Vout utxo
            \<and> Input.PublicKeyHash input = ch
            \<and> Verifier input = PublicKey stakeCreator
            \<and> SignRaw \<lparr>Recipient = stakeholder, signable.Sender = ch,
                         signable.Value = UTXO.Value utxo\<rparr> = Inr (Input.Signature input))
            (Transaction.Inputs tx) (take k utxos)
       \<and> (\<forall>j<k. UTXOs_Sum (take j utxos) <s target)
       \<and> target \<le>s UTXOs_Sum (take k utxos)
       \<and> Transaction.Outputs tx = outputs (UTXOs_Sum (take k utxos))
       \<and> Outputs_Sum (Transaction.Outputs tx) = UTXOs_Sum (take k utxos)"
    if r: "result = Inr tx" for tx
  proof -
    from r cant have n: "\<not> target <s 5"
      by auto
    then have le_total: "target \<le>s UTXOs_Sum utxos" and pos: "0 <s target"
      unfolding target_def by (rule target_le_total)+
    from r n unfolded obtain summed inputs where
      l: "loop = Inr (summed, inputs)"
      and new: "NewTransaction lib inputs (outputs summed) = Inr tx"
      by (cases loop) (auto split: prod.splits)
    have ne: "utxos \<noteq> []"
    proof
      assume "utxos = []"
      with le_total pos show False
        by (simp add: UTXOs_Sum_Nil word_sle_eq word_sless_alt)
    qed
    from NewStakeTransaction_loop_Inr [OF l [unfolded loop_def] ne] obtain k new' where
      k: "0 < k" "k \<le> length utxos"
      and sum: "summed = UTXOs_Sum (take k utxos)"
      and ins: "inputs = new'"
      and rel: "list_all2 (\<lambda>input utxo.
              Input.TransactionID input = UTXO.TransactionID utxo
            \<and> Input.Vout input = UTXO.Vout utxo
            \<and> Input.PublicKeyHash input = ch
            \<and> Verifier input = PublicKey stakeCreator
            \<and> SignRaw \<lparr>Recipient = stakeholder, signable.Sender = ch,
                         signable.Value = UTXO.Value utxo\<rparr> = Inr (Input.Signature input))
            new' (take k utxos)"
      and before: "\<forall>j. 0 < j \<and> j < k \<longrightarrow> UTXOs_Sum (take j utxos) <s target"
      and reached: "k < length utxos \<longrightarrow> target \<le>s summed"
      by auto
    have before': "\<forall>j<k. UTXOs_Sum (take j utxos) <s target"
    proof (intro allI impI)
      fix j assume "j < k"
      with before pos show "UTXOs_Sum (take j utxos) <s target"
        by (cases "j = 0") (simp_all add: UTXOs_Sum_Nil)
    qed
    have enough: "target \<le>s summed"
    proof (cases "k < length utxos")
      case True
      with reached show ?thesis by simp
    next
      case False
      with k sum le_total show ?thesis by simp
    qed
    from new have tx: "Transaction.Inputs tx = inputs" "Transaction.Outputs tx = outputs summed"
      by (auto simp: NewTransaction_def split: sum.splits)
    have total: "Outputs_Sum (outputs summed) = summed"
    proof (cases "target <s summed")
      case True
      then show ?thesis
        by (simp add: outputs_def Outputs_Sum_Cons Outputs_Sum_Nil)
    next
      case False
      with enough have "target = summed"
        by (rule sle_antisym)
      with False show ?thesis
        by (simp add: outputs_def Outputs_Sum_Cons Outputs_Sum_Nil)
    qed
    from k rel before' enough tx total sum ins show ?thesis
      by auto
  qed
  have returns: "\<exists>tx. result = Inr tx"
    if n: "\<not> target <s 5" and signs: "\<forall>p. \<exists>sg. SignRaw p = Inr sg"
      and encodes: "\<forall>h. \<exists>raw. json_Marshal lib h = Inr raw"
  proof -
    from NewStakeTransaction_loop_total [OF signs] obtain r where "loop = Inr r"
      unfolding loop_def by blast
    then obtain summed inputs where l: "loop = Inr (summed, inputs)"
      by (cases r) simp
    from encodes obtain raw where
      "json_Marshal lib \<lparr>hashable.Inputs = inputs, hashable.Outputs = outputs summed,
         hashable.Timestamp = 0\<rparr> = Inr raw"
      by blast
    then have "\<exists>tx. NewTransaction lib inputs (outputs summed) = Inr tx"
      by (simp add: NewTransaction_def newID_def hash_def)
    with n l unfolded show ?thesis by simp
  qed
  from cant ok returns show ?thesis
    unfolding Let_def target_def [symmetric] result_def [symmetric] ch_def [symmetric]
    by (simp add: outputs_def ch_def)
qed

lemma store0_getUTXOsByPublicKey:
  "getUTXOsByPublicKey store0 alice = Inr [out0, other, out1]"
  by (simp add: store0_def getUTXOsByPublicKey_def read_utxos_def json_Unmarshal_def)

lemma hash0_wallet0: "hash0 wallet0 = alice"
  by (simp add: hash0_def wallet0_def alice_def)

theorem NewStakeTransaction_stake_witness:
  "getUTXOsByPublicKey store0 (hash0 wallet0) = Inr [out0, other, out1]
   \<and> go_quo (UTXOs_Sum [out0, other, out1]) 2 = 10
   \<and> (\<exists>tx. NewStakeTransaction lib0 (getUTXOsByPublicKey store0) sign0 hash0 wallet0 ''forger''
              = Inr tx
         \<and> map (\<lambda>i. (Input.TransactionID i, Input.Vout i)) (Transaction.Inputs tx)
             = [(tx1, 0), (''tx-2'', 0)]
         \<and> Transaction.Outputs tx
             = [\<lparr>Output.Value = 10, Output.PublicKeyHash = ''forger''\<rparr>,
                \<lparr>Output.Value = 4, Output.PublicKeyHash = alice\<rparr>])
   \<and> NewStakeTransaction lib0 (\<lambda>h. Inr [out0]) sign0 hash0 wallet0 ''forger''
       = Inl ErrCantForge"
proof -
  have utxos: "getUTXOsByPublicKey store0 (hash0 wallet0) = Inr [out0, other, out1]"
    by (simp add: hash0_wallet0 store0_getUTXOsByPublicKey)
  have total: "UTXOs_Sum [out0, other, out1] = 20"
    by (simp add: UTXOs_Sum_def out0_def out1_def other_def)
  have target: "go_quo (UTXOs_Sum [out0, other, out1]) 2 = 10"
    by (simp add: total go_quo_def signed_divide_int_def)
  have enough: "\<not> (10 :: go_int) <s 5"
    by (simp add: word_sless_alt)
  have signs: "\<forall>p. \<exists>sg. sign0 p = Inr sg"
    by (simp add: sign0_def)
  have encodes: "\<forall>h. \<exists>raw. json_Marshal lib0 h = Inr raw"
    by (simp add: lib0_def)
  from NewStakeTransaction_stake
    [of "getUTXOsByPublicKey store0" hash0 wallet0 "[out0, other, out1]" lib0 sign0
      "''forger''", OF utxos, unfolded Let_def target]
    enough signs encodes
  obtain tx where
    tx: "NewStakeTransaction lib0 (getUTXOsByPublicKey store0) sign0 hash0 wallet0 ''forger''
           = Inr tx"
    by blast
  have loop: "NewStakeTransaction_loop sign0 alice ''alice-key'' ''forger'' 10 0 []
        [out0, other, out1] =
      Inr (14, [\<lparr>Input.TransactionID = tx1, Input.Vout = 0, Input.PublicKeyHash = alice,
                  Input.Signature = ''signed for forger'', Verifier = ''alice-key''\<rparr>,
                \<lparr>Input.TransactionID = ''tx-2'', Input.Vout = 0, Input.PublicKeyHash = alice,
                  Input.Signature = ''signed for forger'', Verifier = ''alice-key''\<rparr>])"
    by (simp add: Let_def sign0_def word_sle_eq out0_def other_def out1_def)
  have key: "PublicKey wallet0 = ''alice-key''"
    by (simp add: wallet0_def)
  have "NewStakeTransaction lib0 (getUTXOsByPublicKey store0) sign0 hash0 wallet0 ''forger''
      = NewTransaction lib0
          [\<lparr>Input.TransactionID = tx1, Input.Vout = 0, Input.PublicKeyHash = alice,
             Input.Signature = ''signed for forger'', Verifier = ''alice-key''\<rparr>,
           \<lparr>Input.TransactionID = ''tx-2'', Input.Vout = 0, Input.PublicKeyHash = alice,
             Input.Signature = ''signed for forger'', Verifier = ''alice-key''\<rparr>]
          [\<lparr>Output.Value = 10, Output.PublicKeyHash = ''forger''\<rparr>,
           \<lparr>Output.Value = 4, Output.PublicKeyHash = alice\<rparr>]"
    by (simp only: NewStakeTransaction_def hash0_wallet0 key store0_getUTXOsByPublicKey
        sum.case Let_def target go_quo_VoteValue loop prod.case)
      (simp add: word_sless_alt)
  with tx have shape:
    "map (\<lambda>i. (Input.TransactionID i, Input.Vout i)) (Transaction.Inputs tx)
       = [(tx1, 0), (''tx-2'', 0)]
     \<and> Transaction.Outputs tx
       = [\<lparr>Output.Value = 10, Output.PublicKeyHash = ''forger''\<rparr>,
          \<lparr>Output.Value = 4, Output.PublicKeyHash = alice\<rparr>]"
    by (auto simp: NewTransaction_def newID_def hash_def lib0_def)
  have small: "go_quo (UTXOs_Sum [out0]) 2 <s 5"
    by (simp add: UTXOs_Sum_def out0_def go_quo_def signed_divide_int_def word_sless_alt)
  have "(\<lambda>h. Inr [out0]) (hash0 wallet0) = (Inr [out0] :: error + UTXOs)"
    by simp
  from NewStakeTransaction_stake
    [of "\<lambda>h. Inr [out0]" hash0 wallet0 "[out0]" lib0 sign0 "''forger''", OF this,
      unfolded Let_def] small
  have cant: "NewStakeTransaction lib0 (\<lambda>h. Inr [out0]) sign0 hash0 wallet0 ''forger''
       = Inl ErrCantForge"
    by blast
  from utxos target tx shape cant show ?thesis
    by simp
qed

subsection \<open>The signing payload of an envelope\<close>




subsection \<open>The BlockForged handler\<close>




subsection \<open>AddBlock\<close>

lemma holds_iff: "holds b key u \<longleftrightarrow> (\<exists>l. b key = Some (Encoded l) \<and> u \<in> set l)"
  by (auto simp: holds_def split: option.splits raw.splits)

lemma saveUTXOs_loop_step:
  assumes "saveUTXOs_loop key_of msg b (u # utxos) = Inr b'"
  obtains saved where
    "(case b (key_of u) of None \<Rightarrow> Inr [] | Some raw \<Rightarrow> json_Unmarshal raw) = Inr saved"
    "key_of u \<noteq> []"
    "saveUTXOs_loop key_of msg (b(key_of u \<mapsto> Encoded (saved @ [u]))) utxos = Inr b'"
proof -
  from assms obtain saved where
    saved: "(case b (key_of u) of None \<Rightarrow> Inr [] | Some raw \<Rightarrow> json_Unmarshal raw) = Inr saved"
    by (cases "case b (key_of u) of None \<Rightarrow> Inr [] | Some raw \<Rightarrow> json_Unmarshal raw")
      simp_all
  with assms obtain b1 where
    put: "Bucket_Put b (key_of u) (Encoded (saved @ [u])) = Inr b1"
    and rest: "saveUTXOs_loop key_of msg b1 utxos = Inr b'"
    by (cases "Bucket_Put b (key_of u) (Encoded (saved @ [u]))") simp_all
  from put have "b1 = b(key_of u \<mapsto> Encoded (saved @ [u]))" and "key_of u \<noteq> []"
    by (simp_all add: Bucket_Put_Inr)
  with saved rest that show ?thesis
    by simp
qed

lemma saveUTXOs_loop_keeps:
  "saveUTXOs_loop key_of msg b utxos = Inr b' \<Longrightarrow> holds b key x \<Longrightarrow> holds b' key x"
proof (induction utxos arbitrary: b)
  case Nil
  then show ?case by simp
next
  case (Cons u utxos)
  from Cons.prems(1) obtain saved where
    saved: "(case b (key_of u) of None \<Rightarrow> Inr [] | Some raw \<Rightarrow> json_Unmarshal raw) = Inr saved"
    and rest: "saveUTXOs_loop key_of msg (b(key_of u \<mapsto> Encoded (saved @ [u]))) utxos = Inr b'"
    by (rule saveUTXOs_loop_step)
  have "holds (b(key_of u \<mapsto> Encoded (saved @ [u]))) key x"
  proof (cases "key = key_of u")
    case True
    with Cons.prems(2) saved show ?thesis
      by (auto simp: holds_def json_Unmarshal_def split: option.splits raw.splits)
  next
    case False
    with Cons.prems(2) show ?thesis
      by (simp add: holds_def)
  qed
  with rest show ?case
    by (rule Cons.IH)
qed

lemma saveUTXOs_loop_adds:
  "saveUTXOs_loop key_of msg b utxos = Inr b' \<Longrightarrow> x \<in> set utxos \<Longrightarrow> holds b' (key_of x) x"
proof (induction utxos arbitrary: b)
  case Nil
  then show ?case by simp
next
  case (Cons u utxos)
  from Cons.prems(1) obtain saved where
    rest: "saveUTXOs_loop key_of msg (b(key_of u \<mapsto> Encoded (saved @ [u]))) utxos = Inr b'"
    by (rule saveUTXOs_loop_step)
  show ?case
  proof (cases "x = u")
    case True
    have "holds (b(key_of u \<mapsto> Encoded (saved @ [u]))) (key_of u) u"
      by (simp add: holds_def)
    with rest True show ?thesis
      by (simp add: saveUTXOs_loop_keeps)
  next
    case False
    with Cons.prems(2) have "x \<in> set utxos" by simp
    with rest show ?thesis
      by (rule Cons.IH)
  qed
qed

lemma in_by_pkey_holds:
  "in_by_pkey s u \<longleftrightarrow>
     (case utxos_by_pkey s of None \<Rightarrow> False | Some b \<Rightarrow> holds b (UTXO.PublicKeyHash u) u)"
  by (auto simp: in_by_pkey_def getUTXOsByPublicKey_def read_utxos_def holds_def
      json_Unmarshal_def split: option.splits raw.splits)

lemma in_by_tx_holds:
  "in_by_tx s u \<longleftrightarrow>
     (case utxos_by_tx s of None \<Rightarrow> False | Some b \<Rightarrow> holds b (UTXO.TransactionID u) u)"
  by (auto simp: in_by_tx_def getUTXOByTransactionID_def read_utxos_def holds_def
      json_Unmarshal_def split: option.splits raw.splits)

lemma holds_created: "holds (bucket_or_created ob) key u \<longleftrightarrow>
    (case ob of None \<Rightarrow> False | Some b \<Rightarrow> holds b key u)"
  by (simp add: bucket_or_created_def holds_def split: option.splits)

lemma saveUTXOs_fields:
  assumes "saveUTXOs s utxos = Inr s'"
  shows "blocks s' = blocks s" and "ether s' = ether s"
    and "in_by_pkey s x \<Longrightarrow> in_by_pkey s' x"
    and "in_by_tx s x \<Longrightarrow> in_by_tx s' x"
    and "x \<in> set utxos \<Longrightarrow> in_by_pkey s' x"
    and "x \<in> set utxos \<Longrightarrow> in_by_tx s' x"
proof -
  from assms obtain b1 b2 where
    l1: "saveUTXOs_loop UTXO.PublicKeyHash ''Failed to save utxo set''
           (bucket_or_created (utxos_by_pkey s)) utxos = Inr b1"
    and l2: "saveUTXOs_loop UTXO.TransactionID ''Failed to save utxo set for tx id''
           (bucket_or_created (utxos_by_tx s)) utxos = Inr b2"
    and s': "s' = s\<lparr>utxos_by_pkey := Some b1, utxos_by_tx := Some b2\<rparr>"
    by (auto simp: saveUTXOs_def saveUTXOsByPublicKey_def saveUTXOsByTransactionID_def
        split: sum.splits)
  from s' show "blocks s' = blocks s" and "ether s' = ether s"
    by simp_all
  show "in_by_pkey s' x" if "in_by_pkey s x"
    using that saveUTXOs_loop_keeps [OF l1, of "UTXO.PublicKeyHash x" x] s'
    by (simp add: in_by_pkey_holds holds_created)
  show "in_by_tx s' x" if "in_by_tx s x"
    using that saveUTXOs_loop_keeps [OF l2, of "UTXO.TransactionID x" x] s'
    by (simp add: in_by_tx_holds holds_created)
  show "in_by_pkey s' x" if "x \<in> set utxos"
    using that saveUTXOs_loop_adds [OF l1, of x] s'
    by (simp add: in_by_pkey_holds)
  show "in_by_tx s' x" if "x \<in> set utxos"
    using that saveUTXOs_loop_adds [OF l2, of x] s'
    by (simp add: in_by_tx_holds)
qed

lemma deleteTransaction_fields:
  assumes "deleteTransaction s t = Inr s'"
  shows "blocks s' = blocks s" and "utxos_by_pkey s' = utxos_by_pkey s"
    and "utxos_by_tx s' = utxos_by_tx s"
    and "\<not> in_ether s' (Transaction.ID t)"
    and "\<not> in_ether s k \<Longrightarrow> \<not> in_ether s' k"
  using assms
  by (auto simp: deleteTransaction_def Bucket_Delete_def in_ether_def
      split: option.splits sum.splits if_splits)

lemma in_by_pkey_cong: "utxos_by_pkey s' = utxos_by_pkey s \<Longrightarrow> in_by_pkey s' = in_by_pkey s"
  by (intro ext) (simp add: in_by_pkey_def getUTXOsByPublicKey_def)

lemma in_by_tx_cong: "utxos_by_tx s' = utxos_by_tx s \<Longrightarrow> in_by_tx s' = in_by_tx s"
  by (intro ext) (simp add: in_by_tx_def getUTXOByTransactionID_def)

lemma in_ether_cong: "ether s' = ether s \<Longrightarrow> in_ether s' = in_ether s"
  by (intro ext) (simp add: in_ether_def)

lemma AddBlock_loop_step:
  assumes "AddBlock_loop s (tr # transactions) = Inr s'"
  obtains s1 s2 where
    "deleteTransaction s tr = Inr s1"
    "saveUTXOs s1 (Transaction_UTXOs tr) = Inr s2"
    "AddBlock_loop s2 transactions = Inr s'"
  using assms by (auto split: sum.splits)

lemma AddBlock_loop_keeps:
  "AddBlock_loop s transactions = Inr s' \<Longrightarrow>
     blocks s' = blocks s
     \<and> (\<not> in_ether s k \<longrightarrow> \<not> in_ether s' k)
     \<and> (in_by_pkey s x \<longrightarrow> in_by_pkey s' x)
     \<and> (in_by_tx s x \<longrightarrow> in_by_tx s' x)"
proof (induction transactions arbitrary: s)
  case Nil
  then show ?case by simp
next
  case (Cons tr transactions)
  from Cons.prems obtain s1 s2 where
    d: "deleteTransaction s tr = Inr s1" and sv: "saveUTXOs s1 (Transaction_UTXOs tr) = Inr s2"
    and r: "AddBlock_loop s2 transactions = Inr s'"
    by (rule AddBlock_loop_step)
  have "blocks s2 = blocks s"
    using saveUTXOs_fields(1) [OF sv] deleteTransaction_fields(1) [OF d] by simp
  moreover have "\<not> in_ether s k \<longrightarrow> \<not> in_ether s2 k"
    using deleteTransaction_fields(5) [OF d, of k]
      in_ether_cong [OF saveUTXOs_fields(2) [OF sv]] by simp
  moreover have "in_by_pkey s x \<longrightarrow> in_by_pkey s2 x"
    using in_by_pkey_cong [OF deleteTransaction_fields(2) [OF d]]
      saveUTXOs_fields(3) [OF sv, of x] by simp
  moreover have "in_by_tx s x \<longrightarrow> in_by_tx s2 x"
    using in_by_tx_cong [OF deleteTransaction_fields(3) [OF d]]
      saveUTXOs_fields(4) [OF sv, of x] by simp
  ultimately show ?case
    using Cons.IH [OF r] by simp
qed

lemma AddBlock_loop_effect:
  "AddBlock_loop s transactions = Inr s' \<Longrightarrow> t \<in> set transactions \<Longrightarrow>
     \<not> in_ether s' (Transaction.ID t)
     \<and> (\<forall>u \<in> set (Transaction_UTXOs t). in_by_pkey s' u \<and> in_by_tx s' u)"
proof (induction transactions arbitrary: s)
  case Nil
  then show ?case by simp
next
  case (Cons tr transactions)
  from Cons.prems(1) obtain s1 s2 where
    d: "deleteTransaction s tr = Inr s1" and sv: "saveUTXOs s1 (Transaction_UTXOs tr) = Inr s2"
    and r: "AddBlock_loop s2 transactions = Inr s'"
    by (rule AddBlock_loop_step)
  show ?case
  proof (cases "t = tr")
    case True
    have "\<not> in_ether s2 (Transaction.ID tr)"
      using deleteTransaction_fields(4) [OF d] in_ether_cong [OF saveUTXOs_fields(2) [OF sv]]
      by simp
    then have gone: "\<not> in_ether s' (Transaction.ID tr)"
      using AddBlock_loop_keeps [OF r, of "Transaction.ID tr"] by simp
    have "in_by_pkey s' u \<and> in_by_tx s' u" if "u \<in> set (Transaction_UTXOs tr)" for u
      using that saveUTXOs_fields(5,6) [OF sv, of u] AddBlock_loop_keeps [OF r, of _ u]
      by simp
    with gone True show ?thesis by simp
  next
    case False
    with Cons.prems(2) have "t \<in> set transactions" by simp
    with r show ?thesis
      by (rule Cons.IH)
  qed
qed

lemma addBlock_Inr:
  assumes "addBlock s block = Inr (created, s1)"
  shows "created = Hash (Header block)"
    and "blocks s1 = Some ((bucket_or_created (blocks s))
           (Hash (Header block) \<mapsto> Block_json block,
            tipKey \<mapsto> Tip_bytes (Hash (Header block))))"
  using assms
  by (auto simp: addBlock_def split: sum.splits dest!: Bucket_Put_Inr)




subsection \<open>CastVote\<close>

lemma saveTransaction_Inr:
  "saveTransaction s tr = Inr s' \<Longrightarrow>
     ether_Get s' (Transaction.ID tr) = Some (Encoded (newTX tr))"
  by (auto simp: saveTransaction_def ether_Get_def split: sum.splits dest!: Bucket_Put_Inr)

lemma ether_Get_cong: "ether s' = ether s \<Longrightarrow> ether_Get s' = ether_Get s"
  by (intro ext) (simp add: ether_Get_def)

text \<open>
  C5. \<^verbatim>\<open>CastVote(from, to, signature)\<close> returns \<^verbatim>\<open>ErrInsufficientVotes\<close> exactly when the
  lookup returns no UTXO for \<open>from\<close>. Otherwise, when it returns no error, the transaction it
  built and saved in the mempool has exactly one input, which references the first UTXO of
  \<open>from\<close> (its transaction ID and output number) with \<open>from\<close> as the spender and the given
  signature, and its outputs are one output of value 1 to \<open>to\<close> followed, exactly when the
  value of that UTXO exceeds 1, by one output of the value minus 1 back to \<open>from\<close>.
\<close>

theorem CastVote_transaction:
  "(fst (CastVote lib getUTXOs overwriteUTXOs s from' to' signature) = Some ErrInsufficientVotes
      \<longleftrightarrow> getUTXOs s from' = Inr [])
   \<and> (getUTXOs s from' = Inr (usedUTXO # rest)
        \<and> CastVote lib getUTXOs overwriteUTXOs s from' to' signature = (None, s') \<longrightarrow>
      (\<exists>tr. NewTransaction lib (Transaction.Inputs tr) (Transaction.Outputs tr) = Inr tr
         \<and> ether_Get s' (Transaction.ID tr) = Some (Encoded (newTX tr))
         \<and> Transaction.Inputs tr =
              [\<lparr>Input.TransactionID = UTXO.TransactionID usedUTXO,
                Input.Vout = UTXO.Vout usedUTXO, Input.PublicKeyHash = from',
                Input.Signature = signature, Verifier = []\<rparr>]
         \<and> Transaction.Outputs tr =
              \<lparr>Output.Value = 1, Output.PublicKeyHash = to'\<rparr>
              # (if 1 <s UTXO.Value usedUTXO
                 then [\<lparr>Output.Value = UTXO.Value usedUTXO - 1,
                        Output.PublicKeyHash = from'\<rparr>]
                 else [])))"
proof (intro conjI impI)
  show "fst (CastVote lib getUTXOs overwriteUTXOs s from' to' signature)
      = Some ErrInsufficientVotes \<longleftrightarrow> getUTXOs s from' = Inr []"
    by (auto simp: CastVote_def Let_def split: sum.splits list.splits)
next
  let ?inputs = "[\<lparr>Input.TransactionID = UTXO.TransactionID usedUTXO,
                Input.Vout = UTXO.Vout usedUTXO, Input.PublicKeyHash = from',
                Input.Signature = signature, Verifier = []\<rparr>]"
  let ?outputs = "\<lparr>Output.Value = 1, Output.PublicKeyHash = to'\<rparr>
              # (if 1 <s UTXO.Value usedUTXO
                 then [\<lparr>Output.Value = UTXO.Value usedUTXO - 1,
                        Output.PublicKeyHash = from'\<rparr>]
                 else [])"
  assume a: "getUTXOs s from' = Inr (usedUTXO # rest)
    \<and> CastVote lib getUTXOs overwriteUTXOs s from' to' signature = (None, s')"
  then obtain tr s1 s2 where
    new: "NewTransaction lib ?inputs ?outputs = Inr tr"
    and save: "saveTransaction s1 tr = Inr s2"
    and utxos: "saveUTXOs s2 (Transaction_UTXOs tr) = Inr s'"
    by (auto simp: CastVote_def Let_def split: sum.splits)
  from new have shape: "Transaction.Inputs tr = ?inputs" "Transaction.Outputs tr = ?outputs"
    by (auto simp: NewTransaction_def split: sum.splits)
  from saveTransaction_Inr [OF save] ether_Get_cong [OF saveUTXOs_fields(2) [OF utxos]]
  have "ether_Get s' (Transaction.ID tr) = Some (Encoded (newTX tr))"
    by simp
  with new shape show "\<exists>tr. NewTransaction lib (Transaction.Inputs tr) (Transaction.Outputs tr)
        = Inr tr
      \<and> ether_Get s' (Transaction.ID tr) = Some (Encoded (newTX tr))
      \<and> Transaction.Inputs tr = ?inputs \<and> Transaction.Outputs tr = ?outputs"
    by (intro exI [of _ tr]) simp
qed

theorem CastVote_transaction_witness:
  "getUTXOsByPublicKey store0 ''nobody'' = Inr []
   \<and> fst (CastVote lib0 getUTXOsByPublicKey overwrite0 store0 ''nobody'' ''party'' ''sig'')
       = Some ErrInsufficientVotes
   \<and> getUTXOsByPublicKey store0 alice = Inr [out0, other, out1]
   \<and> (\<exists>s' tr. CastVote lib0 getUTXOsByPublicKey overwrite0 store0 alice ''party'' ''sig''
                 = (None, s')
         \<and> ether_Get s' (Transaction.ID tr) = Some (Encoded (newTX tr))
         \<and> map (\<lambda>i. (Input.TransactionID i, Input.Vout i)) (Transaction.Inputs tr)
             = [(tx1, 0)]
         \<and> Transaction.Outputs tr =
             [\<lparr>Output.Value = 1, Output.PublicKeyHash = ''party''\<rparr>,
              \<lparr>Output.Value = 3, Output.PublicKeyHash = alice\<rparr>])"
proof -
  have none: "getUTXOsByPublicKey store0 ''nobody'' = Inr []"
    by (simp add: getUTXOsByPublicKey_def read_utxos_def store0_def alice_def)
  from CastVote_transaction
    [of lib0 getUTXOsByPublicKey overwrite0 store0 "''nobody''" "''party''" "''sig''"] none
  have fails: "fst (CastVote lib0 getUTXOsByPublicKey overwrite0 store0 ''nobody'' ''party''
      ''sig'') = Some ErrInsufficientVotes"
    by simp
  have some: "getUTXOsByPublicKey store0 alice = Inr (out0 # [other, out1])"
    by (simp add: store0_getUTXOsByPublicKey)
  let ?tr = "\<lparr>Transaction.ID = ''ecilaytrap1-xt'',
      Transaction.Inputs = [\<lparr>Input.TransactionID = tx1, Input.Vout = 0,
        Input.PublicKeyHash = alice, Input.Signature = ''sig'', Verifier = []\<rparr>],
      Transaction.Outputs = [\<lparr>Output.Value = 1, Output.PublicKeyHash = ''party''\<rparr>,
        \<lparr>Output.Value = 3, Output.PublicKeyHash = alice\<rparr>],
      Transaction.Timestamp = 1600000000\<rparr>"
  have new: "NewTransaction lib0
      [\<lparr>Input.TransactionID = UTXO.TransactionID out0, Input.Vout = UTXO.Vout out0,
         Input.PublicKeyHash = alice, Input.Signature = ''sig'', Verifier = []\<rparr>]
      ([\<lparr>Output.Value = 1, Output.PublicKeyHash = ''party''\<rparr>]
        @ (if 1 <s UTXO.Value out0
           then [\<lparr>Output.Value = UTXO.Value out0 - 1, Output.PublicKeyHash = alice\<rparr>]
           else [])) = Inr ?tr"
    by (simp add: NewTransaction_def newID_def hash_def lib0_def out0_def word_sless_alt
        tx1_def alice_def)
  have over: "\<exists>s1. overwrite0 store0 (UTXO.PublicKeyHash out0) [out0] = Inr s1
      \<and> ether s1 = None \<and> utxos_by_tx s1 = utxos_by_tx store0
      \<and> utxos_by_pkey s1 = Some [alice \<mapsto> Encoded [out0]]"
    by (simp add: overwrite0_def Bucket_Put_def MaxKeySize_def store0_def out0_def alice_def
        bucket_or_created_def)
  then obtain s1 where s1: "overwrite0 store0 (UTXO.PublicKeyHash out0) [out0] = Inr s1"
    and e1: "ether s1 = None" and t1: "utxos_by_tx s1 = utxos_by_tx store0"
    and p1: "utxos_by_pkey s1 = Some [alice \<mapsto> Encoded [out0]]"
    by blast
  have "\<exists>s2. saveTransaction s1 ?tr = Inr s2 \<and> utxos_by_tx s2 = utxos_by_tx store0
      \<and> utxos_by_pkey s2 = Some [alice \<mapsto> Encoded [out0]]"
    by (simp add: saveTransaction_def e1 t1 p1 bucket_or_created_def Bucket_Put_def
        MaxKeySize_def)
  then obtain s2 where s2: "saveTransaction s1 ?tr = Inr s2"
    and t2: "utxos_by_tx s2 = utxos_by_tx store0"
    and p2: "utxos_by_pkey s2 = Some [alice \<mapsto> Encoded [out0]]"
    by blast
  have "\<exists>s3. saveUTXOs s2 (Transaction_UTXOs ?tr) = Inr s3"
    by (simp add: Transaction_UTXOs_def saveUTXOs_def saveUTXOsByPublicKey_def
        saveUTXOsByTransactionID_def t2 p2 store0_def bucket_or_created_def Bucket_Put_def
        MaxKeySize_def json_Unmarshal_def alice_def tx1_def)
  then obtain s3 where s3: "saveUTXOs s2 (Transaction_UTXOs ?tr) = Inr s3"
    by blast
  have ok: "CastVote lib0 getUTXOsByPublicKey overwrite0 store0 alice ''party'' ''sig''
      = (None, s3)"
    by (simp only: CastVote_def some sum.case list.case Let_def new s1 s2 s3)
  from CastVote_transaction
    [of lib0 getUTXOsByPublicKey overwrite0 store0 alice "''party''" "''sig''" out0
      "[other, out1]" s3] some ok
  obtain tr where "ether_Get s3 (Transaction.ID tr) = Some (Encoded (newTX tr))"
    and "Transaction.Inputs tr =
      [\<lparr>Input.TransactionID = UTXO.TransactionID out0, Input.Vout = UTXO.Vout out0,
         Input.PublicKeyHash = alice, Input.Signature = ''sig'', Verifier = []\<rparr>]"
    and "Transaction.Outputs tr = \<lparr>Output.Value = 1, Output.PublicKeyHash = ''party''\<rparr>
      # (if 1 <s UTXO.Value out0
         then [\<lparr>Output.Value = UTXO.Value out0 - 1, Output.PublicKeyHash = alice\<rparr>]
         else [])"
    by blast
  then have "ether_Get s3 (Transaction.ID tr) = Some (Encoded (newTX tr))
      \<and> map (\<lambda>i. (Input.TransactionID i, Input.Vout i)) (Transaction.Inputs tr) = [(tx1, 0)]
      \<and> Transaction.Outputs tr =
          [\<lparr>Output.Value = 1, Output.PublicKeyHash = ''party''\<rparr>,
           \<lparr>Output.Value = 3, Output.PublicKeyHash = alice\<rparr>]"
    by (simp add: out0_def word_sless_alt)
  with none fails some ok show ?thesis
    by auto
qed

end
